theory Spec2Isabelle
  imports Complex_Main "HOL-Library.Word"
begin

section \<open>Conventions\<close>

text \<open>
  JavaScript numbers that carry loudness values, thresholds and time fractions are
  modelled as \<^typ>\<open>real\<close>: the arithmetic below is the arithmetic of the source read over
  the reals, so rounding of IEEE doubles and the value NaN are outside the model.
  \<^verbatim>\<open>Date.now()\<close> is an integral number of milliseconds and is passed in as an \<^typ>\<open>int\<close>
  argument at each place where the source reads the clock.  Bytes of the
  \<^verbatim>\<open>Uint8Array\<close> are \<^typ>\<open>8 word\<close>.  Writes to the DOM and to the console are not part
  of the state.

  Where the source computes a value in doubles (the interpolation of the decay, the
  weighted average), the properties below state the formula that it evaluates.  Order
  and range properties are stated of values that the source copies or clamps (a
  sample, the held peak, a threshold), not of the result of such a computation, which
  rounding can move by an ulp and which the source does not clamp.
\<close>

section \<open>StateManager (services/StateManager.js)\<close>

datatype States = SILENT | LOW | OPTIMAL | WARNING | DANGER

text \<open>The enumeration maps every tag to the string of the same spelling.\<close>

fun stateKey :: "States \<Rightarrow> string" where
  "stateKey SILENT = ''SILENT''"
| "stateKey LOW = ''LOW''"
| "stateKey OPTIMAL = ''OPTIMAL''"
| "stateKey WARNING = ''WARNING''"
| "stateKey DANGER = ''DANGER''"

text \<open>
  \<^verbatim>\<open>this.config\<close>.  The four numeric properties exist from the constructor on; every
  other property that a merge copies in (\<^verbatim>\<open>persistenceDuration\<close>, \<^verbatim>\<open>studentName\<close>,
  \<^verbatim>\<open>lastUpdated\<close>) is kept in \<open>otherProps\<close>, name to JSON text.
\<close>

record config =
  lowerThreshold :: real
  upperThreshold :: real
  sensitivity :: real
  dampening :: real
  otherProps :: "string \<rightharpoonup> string"

text \<open>The argument of \<^verbatim>\<open>updateConfiguration\<close>: a partial or complete configuration.\<close>

record newConfig =
  newLowerThreshold :: "real option"
  newUpperThreshold :: "real option"
  newSensitivity :: "real option"
  newDampening :: "real option"
  newOtherProps :: "string \<rightharpoonup> string"

record stateManager =
  currentState :: States
  previousState :: "States option"
  lastVolume :: real
  studentName :: string
  stateChangeListeners :: "nat list"
  config :: config
  volumeHistory :: "real list"
  historyMaxLength :: nat

definition newStateManager :: stateManager where
  "newStateManager =
     \<lparr> currentState = SILENT, previousState = None, lastVolume = 0, studentName = [],
       stateChangeListeners = [],
       config = \<lparr> lowerThreshold = 25, upperThreshold = 75, sensitivity = 85,
                  dampening = 20, otherProps = Map.empty \<rparr>,
       volumeHistory = [], historyMaxLength = 5 \<rparr>"

text \<open>
  \<^verbatim>\<open>applyDampening\<close>: push, evict the oldest entry beyond \<open>historyMaxLength\<close>, then
  either return the volume (dampening 0) or the weighted average.  The history is
  never empty at the division, since the volume has just been pushed.
\<close>

definition applyDampening :: "real \<Rightarrow> stateManager \<Rightarrow> real \<times> stateManager" where
  "applyDampening volume sm =
     (let pushed = volumeHistory sm @ [volume];
          history = (if length pushed > historyMaxLength sm then tl pushed else pushed);
          sm' = sm\<lparr>volumeHistory := history\<rparr>
      in if dampening (config sm) = 0 then (volume, sm')
         else
           let dampeningFactor = dampening (config sm) / 100;
               weightCurrent = 1 - dampeningFactor;
               weightHistory = dampeningFactor;
               historyAverage = foldl (\<lambda>sum v. sum + v) 0 history / real (length history)
           in ((volume * weightCurrent) + (historyAverage * weightHistory), sm'))"

definition determineState :: "stateManager \<Rightarrow> real \<Rightarrow> States" where
  "determineState sm volume =
     (let lower = lowerThreshold (config sm); upper = upperThreshold (config sm)
      in if volume < 3 then SILENT
         else if volume < lower then LOW
         else if volume \<ge> lower \<and> volume \<le> upper then OPTIMAL
         else DANGER)"

text \<open>The spread \<^verbatim>\<open>{ ...this.config, ...newConfig }\<close>: properties of the argument win.\<close>

definition mergeConfig :: "config \<Rightarrow> newConfig \<Rightarrow> config" where
  "mergeConfig c n =
     \<lparr> lowerThreshold = (case newLowerThreshold n of None \<Rightarrow> lowerThreshold c | Some v \<Rightarrow> v),
       upperThreshold = (case newUpperThreshold n of None \<Rightarrow> upperThreshold c | Some v \<Rightarrow> v),
       sensitivity = (case newSensitivity n of None \<Rightarrow> sensitivity c | Some v \<Rightarrow> v),
       dampening = (case newDampening n of None \<Rightarrow> dampening c | Some v \<Rightarrow> v),
       otherProps = otherProps c ++ newOtherProps n \<rparr>"

definition updateConfiguration :: "newConfig \<Rightarrow> stateManager \<Rightarrow> stateManager" where
  "updateConfiguration n sm =
     (let c0 = mergeConfig (config sm) n;
          c1 = c0\<lparr>lowerThreshold := max 0 (min 85 (lowerThreshold c0))\<rparr>;
          c2 = c1\<lparr>upperThreshold := max 15 (min 100 (upperThreshold c1))\<rparr>;
          c3 = c2\<lparr>sensitivity := max 0 (min 100 (sensitivity c2))\<rparr>;
          c4 = c3\<lparr>dampening := max 0 (min 100 (dampening c3))\<rparr>;
          c5 = (if lowerThreshold c4 \<ge> upperThreshold c4
                then c4\<lparr>upperThreshold := lowerThreshold c4 + 10\<rparr> else c4)
      in sm\<lparr>config := c5\<rparr>)"




text \<open>
  The value that \<^verbatim>\<open>getStateInfo\<close> returns.  The table \<^verbatim>\<open>info\<close> is an object literal, so
  \<^verbatim>\<open>info[state]\<close> finds the four own properties and, for any other key, whatever
  \<^verbatim>\<open>Object.prototype\<close> has under that name: a function, or the prototype itself for
  \<^verbatim>\<open>__proto__\<close>.  Such a member is truthy, so \<^verbatim>\<open>||\<close> does not replace it; it has neither
  a \<^verbatim>\<open>message\<close> nor an \<^verbatim>\<open>emoji\<close> property.  Messages are written without their accents
  and without the inverted exclamation mark; an emoji is its Unicode code point.
\<close>

record stateInfo =
  message :: string
  emoji :: nat

datatype infoValue = InfoObject stateInfo | PrototypeMember string

definition objectPrototypeKeys :: "string list" where
  "objectPrototypeKeys =
     [''constructor'', ''toString'', ''toLocaleString'', ''valueOf'', ''hasOwnProperty'',
      ''isPrototypeOf'', ''propertyIsEnumerable'', ''__proto__'', ''__defineGetter__'',
      ''__defineSetter__'', ''__lookupGetter__'', ''__lookupSetter__'']"

definition getProperty :: "(string \<times> stateInfo) list \<Rightarrow> string \<Rightarrow> infoValue option" where
  "getProperty obj key =
     (case map_of obj key of
        Some v \<Rightarrow> Some (InfoObject v)
      | None \<Rightarrow> if key \<in> set objectPrototypeKeys then Some (PrototypeMember key) else None)"

definition messageOf :: "infoValue \<Rightarrow> string option" where
  "messageOf v = (case v of InfoObject i \<Rightarrow> Some (message i) | PrototypeMember _ \<Rightarrow> None)"

definition emojiOf :: "infoValue \<Rightarrow> nat option" where
  "emojiOf v = (case v of InfoObject i \<Rightarrow> Some (emoji i) | PrototypeMember _ \<Rightarrow> None)"

definition speakUp :: "string \<Rightarrow> stateInfo" where
  "speakUp name =
     \<lparr> message = (if name \<noteq> [] then ''Habla, '' @ name else ''Habla un poco, no te oigo''),
       emoji = 0x1F914 \<rparr>"

definition info :: "string \<Rightarrow> (string \<times> stateInfo) list" where
  "info name =
     [(''SILENT'', speakUp name),
      (''LOW'', speakUp name),
      (''OPTIMAL'', \<lparr> message = ''Perfecto, sigue asi, manten el volumen'', emoji = 0x1F60A \<rparr>),
      (''DANGER'', \<lparr> message = ''Vamos!!'', emoji = 0x1F605 \<rparr>)]"

definition getStateInfo :: "stateManager \<Rightarrow> string \<Rightarrow> infoValue" where
  "getStateInfo sm state =
     (case getProperty (info (studentName sm)) state of
        Some v \<Rightarrow> v
      | None \<Rightarrow> InfoObject (speakUp (studentName sm)))"

text \<open>What one listener receives on a state change.\<close>

record stateChange =
  listener :: nat
  changedTo :: States
  changedFrom :: "States option"
  changeMessage :: "string option"
  changeEmoji :: "nat option"

definition notifyStateChange :: "stateManager \<Rightarrow> stateChange list" where
  "notifyStateChange sm =
     (let stateInfo = getStateInfo sm (stateKey (currentState sm))
      in map (\<lambda>callback.
            \<lparr> listener = callback, changedTo = currentState sm,
              changedFrom = previousState sm,
              changeMessage = messageOf stateInfo, changeEmoji = emojiOf stateInfo \<rparr>)
          (stateChangeListeners sm))"


text \<open>The object that \<^verbatim>\<open>updateState\<close> returns.\<close>

record stateData =
  state :: States
  volume :: real
  stateChanged :: bool
  dataMessage :: "string option"
  dataEmoji :: "nat option"
  isInGreenZone :: bool

definition updateState :: "real \<Rightarrow> stateManager \<Rightarrow> stateData \<times> stateChange list \<times> stateManager" where
  "updateState vol sm =
     (let newState = determineState sm vol;
          changed = (newState \<noteq> currentState sm);
          sm1 = (if changed
                 then sm\<lparr>previousState := Some (currentState sm), currentState := newState\<rparr>
                 else sm);
          notified = (if changed then notifyStateChange sm1 else []);
          sm2 = sm1\<lparr>lastVolume := vol\<rparr>
      in (\<lparr> state = currentState sm2, volume = vol, stateChanged = changed,
            dataMessage = messageOf (getStateInfo sm2 (stateKey (currentState sm2))),
            dataEmoji = emojiOf (getStateInfo sm2 (stateKey (currentState sm2))),
            isInGreenZone = (currentState sm2 = OPTIMAL) \<rparr>,
          notified, sm2))"

text \<open>\<^verbatim>\<open>reset\<close> also sets a property \<^verbatim>\<open>previousVolume\<close> that nothing reads.\<close>

definition reset :: "stateManager \<Rightarrow> stateManager" where
  "reset sm = sm\<lparr>currentState := SILENT, volumeHistory := []\<rparr>"

section \<open>AudioAnalyzer (services/AudioAnalyzer.js)\<close>

text \<open>
  \<open>dataArray\<close> is \<^verbatim>\<open>null\<close> until \<^verbatim>\<open>initialize\<close> succeeds; from then on it is the
  frequency buffer, and \<^verbatim>\<open>bufferLength\<close> is its length (1024 for the fixed FFT size of
  2048).  The buffer is therefore never empty; for an empty one the source would
  divide 0 by 0, and the properties below are stated for non-empty buffers.
  \<^verbatim>\<open>Math.sqrt\<close> is the real square root.
\<close>

record audioAnalyzer =
  dataArray :: "8 word list option"
  isInitialized :: bool
  isAnalyzing :: bool

definition rms :: "8 word list \<Rightarrow> real" where
  "rms d =
     sqrt (foldl (\<lambda>sum b. sum + (real (unat b) / 255) * (real (unat b) / 255)) 0 d
           / real (length d))"

definition getRMSVolume :: "audioAnalyzer \<Rightarrow> real" where
  "getRMSVolume a =
     (case dataArray a of
        None \<Rightarrow> 0
      | Some d \<Rightarrow>
          let volume = min 100 (rms d * 250)
          in if volume < 8 then 0 else volume)"

section \<open>SessionTracker (services/SessionTracker.js)\<close>

record session =
  sessionId :: "int \<times> string"
  startTime :: int
  totalDuration :: int
  greenZoneTime :: int
  peakVolume :: int
  consistencyScore :: int
  dropCount :: int
  stateHistory :: "(States \<times> int \<times> int) list"
  sessionState :: States
  lastGreenTime :: "int option"

text \<open>
  The part of \<^verbatim>\<open>localStorage\<close> that the tracker uses: the item
  \<^verbatim>\<open>eco-logro-sessions\<close> (absent, or the stored list), and whether reading or writing
  throws, as it does when storage is disabled or full.
\<close>

record localStorage =
  sessionsItem :: "session list option"
  getItemThrows :: bool
  setItemThrows :: bool

record sessionTracker =
  currentSession :: "session option"
  isTracking :: bool
  timerInterval :: "nat option"

definition newSessionTracker :: sessionTracker where
  "newSessionTracker = \<lparr> currentSession = None, isTracking = False, timerInterval = None \<rparr>"

definition getSessionHistory :: "localStorage \<Rightarrow> session list" where
  "getSessionHistory ls =
     (if getItemThrows ls then []
      else case sessionsItem ls of None \<Rightarrow> [] | Some stored \<Rightarrow> stored)"

definition saveSessionToHistory :: "session \<Rightarrow> localStorage \<Rightarrow> localStorage" where
  "saveSessionToHistory s ls =
     (let history = s # getSessionHistory ls;
          limitedHistory = take 50 history
      in if setItemThrows ls then ls else ls\<lparr>sessionsItem := Some limitedHistory\<rparr>)"

definition calculateConsistency :: "sessionTracker \<Rightarrow> int" where
  "calculateConsistency tr =
     (case currentSession tr of
        None \<Rightarrow> 100
      | Some s \<Rightarrow>
          if greenZoneTime s = 0 then 0
          else let penalty = min (dropCount s * 5) 80 in max 0 (100 - penalty))"

text \<open>
  \<^verbatim>\<open>endSession\<close> returns the summary (\<open>None\<close> for \<^verbatim>\<open>null\<close>), the tracker and the storage.
  \<open>now\<close> is the clock reading of its \<^verbatim>\<open>Date.now()\<close>.
\<close>

definition endSession ::
  "int \<Rightarrow> sessionTracker \<Rightarrow> localStorage \<Rightarrow> session option \<times> sessionTracker \<times> localStorage" where
  "endSession now tr ls =
     (case currentSession tr of
        None \<Rightarrow> (None, tr, ls)
      | Some s \<Rightarrow>
          if \<not> isTracking tr then (None, tr, ls)
          else
            let tr1 = tr\<lparr>isTracking := False,
                         timerInterval := (if timerInterval tr = Some 0 then Some 0 else None)\<rparr>;
                s1 = s\<lparr>totalDuration := (now - startTime s) div 1000\<rparr>;
                tr2 = tr1\<lparr>currentSession := Some s1\<rparr>;
                s2 = s1\<lparr>consistencyScore := calculateConsistency tr2\<rparr>;
                tr3 = tr2\<lparr>currentSession := Some s2\<rparr>;
                summary = s2
            in (Some summary, tr3, saveSessionToHistory summary ls))"

text \<open>
  \<^verbatim>\<open>startSession\<close>.  \<open>endNow\<close> is the clock for the implicit \<^verbatim>\<open>endSession\<close>, \<open>idNow\<close> and
  \<open>random\<close> are read by \<^verbatim>\<open>generateSessionId\<close>, \<open>startNow\<close> is the start time and \<open>timer\<close>
  the handle that \<^verbatim>\<open>setInterval\<close> returns.
\<close>

definition freshSession :: "int \<Rightarrow> string \<Rightarrow> int \<Rightarrow> session" where
  "freshSession idNow random startNow =
     \<lparr> sessionId = (idNow, random), startTime = startNow, totalDuration = 0,
       greenZoneTime = 0, peakVolume = 0, consistencyScore = 100, dropCount = 0,
       stateHistory = [], sessionState = SILENT, lastGreenTime = None \<rparr>"

definition startSession ::
  "int \<Rightarrow> int \<Rightarrow> string \<Rightarrow> int \<Rightarrow> nat \<Rightarrow> sessionTracker \<Rightarrow> localStorage
     \<Rightarrow> sessionTracker \<times> localStorage" where
  "startSession endNow idNow random startNow timer tr ls =
     (let (tr1, ls1) = (if isTracking tr then snd (endSession endNow tr ls) else (tr, ls))
      in (tr1\<lparr>currentSession := Some (freshSession idNow random startNow),
               isTracking := True, timerInterval := Some timer\<rparr>, ls1))"

definition updateTimer :: "int \<Rightarrow> sessionTracker \<Rightarrow> sessionTracker" where
  "updateTimer now tr =
     (case currentSession tr of
        None \<Rightarrow> tr
      | Some s \<Rightarrow>
          let s1 = s\<lparr>totalDuration := (now - startTime s) div 1000\<rparr>;
              s2 = (if sessionState s1 = OPTIMAL
                    then s1\<lparr>greenZoneTime := greenZoneTime s1 + 1\<rparr> else s1)
          in tr\<lparr>currentSession := Some s2\<rparr>)"

text \<open>\<^verbatim>\<open>Math.round\<close> rounds halves up.\<close>

definition mathRound :: "real \<Rightarrow> int" where
  "mathRound x = \<lfloor>x + 1 / 2\<rfloor>"

text \<open>
  The tracker's \<^verbatim>\<open>updateState\<close>; \<open>now\<close> stands for its clock readings, which only end up
  in the history entry and in \<open>lastGreenTime\<close>.
\<close>

definition trackState :: "int \<Rightarrow> stateData \<Rightarrow> sessionTracker \<Rightarrow> sessionTracker" where
  "trackState now sd tr =
     (case currentSession tr of
        None \<Rightarrow> tr
      | Some s \<Rightarrow>
          if \<not> isTracking tr then tr
          else
            let previous = sessionState s;
                s1 = s\<lparr>sessionState := state sd\<rparr>;
                s2 = (if volume sd > real_of_int (peakVolume s1)
                      then s1\<lparr>peakVolume := mathRound (volume sd)\<rparr> else s1);
                s3 = (if stateChanged sd
                      then let s' = s2\<lparr>stateHistory :=
                                        stateHistory s2 @ [(state sd, now, mathRound (volume sd))]\<rparr>
                           in if previous = OPTIMAL \<and> state sd \<noteq> OPTIMAL
                              then s'\<lparr>dropCount := dropCount s' + 1\<rparr> else s'
                      else s2);
                s4 = (if state sd = OPTIMAL
                      then (if lastGreenTime s3 = None \<or> lastGreenTime s3 = Some 0
                            then s3\<lparr>lastGreenTime := Some now\<rparr> else s3)
                      else s3\<lparr>lastGreenTime := None\<rparr>)
            in tr\<lparr>currentSession := Some s4\<rparr>)"

section \<open>EcoLogroApp (app.js)\<close>

record ecoLogroApp =
  audioAnalyzer :: audioAnalyzer
  stateManager :: stateManager
  sessionTracker :: sessionTracker
  isRunning :: bool
  isPaused :: bool
  lastSignificantVolume :: real
  lastVolumeTimestamp :: int
  volumeHoldDuration :: int
  displayedVolume :: real

definition newEcoLogroApp :: ecoLogroApp where
  "newEcoLogroApp =
     \<lparr> audioAnalyzer = \<lparr> dataArray = None, isInitialized = False, isAnalyzing = False \<rparr>,
       stateManager = newStateManager, sessionTracker = newSessionTracker,
       isRunning = False, isPaused = False,
       lastSignificantVolume = 0, lastVolumeTimestamp = 0, volumeHoldDuration = 2000,
       displayedVolume = 0 \<rparr>"

text \<open>
  \<^verbatim>\<open>updateThermometer\<close>, the peak-hold part; the rest of the method only computes the
  height and colour of the bar for the DOM.  The interpolation of the decay is the
  expression of the source; the source evaluates it in doubles and does not clamp the
  result, so the displayed volume of a tick inside the decay window can leave the
  interval spanned by the sample and the held peak by an ulp.
\<close>

definition updateThermometer :: "int \<Rightarrow> real \<Rightarrow> ecoLogroApp \<Rightarrow> ecoLogroApp" where
  "updateThermometer currentTime vol app =
     (if vol > lastSignificantVolume app
      then app\<lparr>lastSignificantVolume := vol, lastVolumeTimestamp := currentTime,
               displayedVolume := vol\<rparr>
      else
        let timeSinceLastPeak = currentTime - lastVolumeTimestamp app
        in if timeSinceLastPeak < volumeHoldDuration app
           then app\<lparr>displayedVolume := lastSignificantVolume app\<rparr>
           else
             let decayDuration = 1000;
                 timeInDecay = timeSinceLastPeak - volumeHoldDuration app;
                 progress = min 1 (real_of_int timeInDecay / decayDuration);
                 app1 = app\<lparr>displayedVolume :=
                              lastSignificantVolume app * (1 - progress) + (vol * progress)\<rparr>
             in if progress \<ge> 1
                then app1\<lparr>lastSignificantVolume := vol, lastVolumeTimestamp := currentTime\<rparr>
                else app1)"

text \<open>
  \<^verbatim>\<open>handleVolumeUpdate\<close>: the argument of the callback is not used; the sample is read
  with \<^verbatim>\<open>getRMSVolume\<close>, goes to \<^verbatim>\<open>updateThermometer\<close> as it is, and the displayed
  volume goes to the state manager and the tracker.  The result carries the
  notifications sent to the listeners.
\<close>

definition handleVolumeUpdate :: "int \<Rightarrow> int \<Rightarrow> ecoLogroApp \<Rightarrow> stateChange list \<times> ecoLogroApp" where
  "handleVolumeUpdate currentTime trackTime app =
     (if isPaused app then ([], app)
      else
        let rmsVolume = getRMSVolume (audioAnalyzer app);
            app1 = updateThermometer currentTime rmsVolume app;
            (stateData, notified, sm) = updateState (displayedVolume app1) (stateManager app1)
        in (notified,
            app1\<lparr>stateManager := sm,
                 sessionTracker := trackState trackTime stateData (sessionTracker app1)\<rparr>))"

text \<open>
  \<^verbatim>\<open>analyze\<close>, one animation frame of the analyzer: the analyser node fills the buffer
  with the frame \<open>d\<close>, and the volume callback (\<^verbatim>\<open>handleVolumeUpdate\<close>) runs.
\<close>

definition analyze ::
  "8 word list \<Rightarrow> int \<Rightarrow> int \<Rightarrow> ecoLogroApp \<Rightarrow> stateChange list \<times> ecoLogroApp" where
  "analyze d currentTime trackTime app =
     (if \<not> isAnalyzing (audioAnalyzer app) then ([], app)
      else handleVolumeUpdate currentTime trackTime
             (app\<lparr>audioAnalyzer := (audioAnalyzer app)\<lparr>dataArray := Some d\<rparr>\<rparr>))"

section \<open>The pipeline as the specification words it\<close>

text \<open>
  The specification puts the dampening stage between the conditioner and the envelope:
  the conditioned sample goes through \<open>applyDampening\<close>, and its result is what the
  hold-and-decay envelope and then the classifier receive.  \<open>dampenedVolumeUpdate\<close> is
  \<open>handleVolumeUpdate\<close> with that stage put in, for comparison with the source.
\<close>

definition dampenedVolumeUpdate ::
  "int \<Rightarrow> int \<Rightarrow> ecoLogroApp \<Rightarrow> stateChange list \<times> ecoLogroApp" where
  "dampenedVolumeUpdate currentTime trackTime app =
     (if isPaused app then ([], app)
      else
        let rmsVolume = getRMSVolume (audioAnalyzer app);
            (weightedAvg, sm0) = applyDampening rmsVolume (stateManager app);
            app1 = updateThermometer currentTime weightedAvg (app\<lparr>stateManager := sm0\<rparr>);
            (stateData, notified, sm) = updateState (displayedVolume app1) (stateManager app1)
        in (notified,
            app1\<lparr>stateManager := sm,
                 sessionTracker := trackState trackTime stateData (sessionTracker app1)\<rparr>))"

definition dampenedAnalyze ::
  "8 word list \<Rightarrow> int \<Rightarrow> int \<Rightarrow> ecoLogroApp \<Rightarrow> stateChange list \<times> ecoLogroApp" where
  "dampenedAnalyze d currentTime trackTime app =
     (if \<not> isAnalyzing (audioAnalyzer app) then ([], app)
      else dampenedVolumeUpdate currentTime trackTime
             (app\<lparr>audioAnalyzer := (audioAnalyzer app)\<lparr>dataArray := Some d\<rparr>\<rparr>))"

section \<open>Runs and example inputs\<close>

text \<open>
  The stabilizer over a run.  Between two ticks \<^verbatim>\<open>saveConfiguration\<close> may assign a new
  persistence to \<open>volumeHoldDuration\<close> (app.js 461, and 225 at start-up); that assignment
  is its only effect on the stabilizer.  A tick of a run carries the hold duration in
  force when it is processed, the clock reading and the conditioned sample, and
  \<open>runTicks\<close> lists the stabilizer states after each tick.
\<close>

definition setPersistence :: "int \<Rightarrow> ecoLogroApp \<Rightarrow> ecoLogroApp" where
  "setPersistence persistenceDuration app = app\<lparr>volumeHoldDuration := persistenceDuration\<rparr>"

record tick =
  tickHold :: int
  tickTime :: int
  tickSample :: real

fun runTicks :: "ecoLogroApp \<Rightarrow> tick list \<Rightarrow> ecoLogroApp list" where
  "runTicks app [] = []"
| "runTicks app (k # ticks) =
     updateThermometer (tickTime k) (tickSample k) (setPersistence (tickHold k) app)
       # runTicks (updateThermometer (tickTime k) (tickSample k) (setPersistence (tickHold k) app))
           ticks"

text \<open>
  The tick lands inside the decay window: the branch of \<open>updateThermometer\<close> that
  interpolates with a progress below 1.
\<close>

definition decaying :: "int \<Rightarrow> real \<Rightarrow> ecoLogroApp \<Rightarrow> bool" where
  "decaying currentTime vol app =
     (vol \<le> lastSignificantVolume app
      \<and> volumeHoldDuration app \<le> currentTime - lastVolumeTimestamp app
      \<and> currentTime - lastVolumeTimestamp app - volumeHoldDuration app < 1000)"

text \<open>The stabilizer right after a peak of 50 at clock 1000000, hold duration 2000.\<close>

definition peakApp :: ecoLogroApp where
  "peakApp = updateThermometer 1000000 50 newEcoLogroApp"

text \<open>A peak of 100, then silence half-way through the decay, then a sample of 40.\<close>

definition reboundTicks :: "tick list" where
  "reboundTicks =
     [\<lparr> tickHold = 2000, tickTime = 1000000, tickSample = 100 \<rparr>,
      \<lparr> tickHold = 2000, tickTime = 1002500, tickSample = 0 \<rparr>,
      \<lparr> tickHold = 2000, tickTime = 1002750, tickSample = 40 \<rparr>]"

text \<open>
  The same peak and silence, then the hold duration raised to 5000 before a third
  tick of silence.
\<close>

definition raisedHoldTicks :: "tick list" where
  "raisedHoldTicks =
     [\<lparr> tickHold = 2000, tickTime = 1000000, tickSample = 100 \<rparr>,
      \<lparr> tickHold = 2000, tickTime = 1002500, tickSample = 0 \<rparr>,
      \<lparr> tickHold = 5000, tickTime = 1002600, tickSample = 0 \<rparr>]"

text \<open>Frames of 1024 bins: silence, and every bin at full scale.\<close>

definition silentFrame :: "8 word list" where
  "silentFrame = replicate 1024 0"

definition loudFrame :: "8 word list" where
  "loudFrame = replicate 1024 255"

text \<open>The application after \<^verbatim>\<open>initialize\<close> and \<^verbatim>\<open>startAnalysis\<close>, with the default configuration.\<close>

definition analyzingApp :: ecoLogroApp where
  "analyzingApp =
     newEcoLogroApp\<lparr>audioAnalyzer :=
                      \<lparr> dataArray = Some silentFrame, isInitialized = True, isAnalyzing = True \<rparr>,
                    isRunning := True\<rparr>"

definition noChange :: newConfig where
  "noChange = \<lparr> newLowerThreshold = None, newUpperThreshold = None, newSensitivity = None,
                newDampening = None, newOtherProps = Map.empty \<rparr>"

text \<open>A green zone that starts at 0.\<close>

definition zeroFloorManager :: stateManager where
  "zeroFloorManager = updateConfiguration (noChange\<lparr>newLowerThreshold := Some 0\<rparr>) newStateManager"

text \<open>Thresholds out of range and in the wrong order.\<close>

definition crossedThresholds :: newConfig where
  "crossedThresholds = noChange\<lparr>newLowerThreshold := Some 120, newUpperThreshold := Some (- 4)\<rparr>"


text \<open>Storage that works and is empty; storage that can be read but rejects every write.\<close>

definition emptyStorage :: localStorage where
  "emptyStorage = \<lparr> sessionsItem = None, getItemThrows = False, setItemThrows = False \<rparr>"

definition fullStorage :: localStorage where
  "fullStorage = \<lparr> sessionsItem = None, getItemThrows = False, setItemThrows = True \<rparr>"

text \<open>A tracker with a session that started at 1000000.\<close>

definition activeTracker :: sessionTracker where
  "activeTracker = fst (startSession 1000000 1000000 ''k3x9q'' 1000000 1 newSessionTracker emptyStorage)"

text \<open>The same session after twenty drops out of the green zone and 30 green seconds.\<close>

definition droppySession :: session where
  "droppySession = (freshSession 1000000 ''k3x9q'' 1000000)\<lparr>greenZoneTime := 30, dropCount := 20\<rparr>"

definition droppyTracker :: sessionTracker where
  "droppyTracker = activeTracker\<lparr>currentSession := Some droppySession\<rparr>"

section \<open>Signal conditioner\<close>

lemma byte_range: "0 \<le> real (unat (b :: 8 word)) \<and> real (unat b) \<le> 255"
proof -
  have "unat b < 2 ^ LENGTH(8)" by (rule unsigned_less)
  then have "unat b \<le> 255" by simp
  then have "real (unat b) \<le> real 255" by (rule iffD2 [OF of_nat_le_iff])
  then show ?thesis by (simp del: of_nat_unat)
qed

lemma unit_square: "0 \<le> (x::real) \<Longrightarrow> x \<le> 1 \<Longrightarrow> 0 \<le> x * x \<and> x * x \<le> 1"
  by (simp add: mult_le_one)

lemma normalized_square:
  "0 \<le> (real (unat (b :: 8 word)) / 255) * (real (unat b) / 255) \<and>
   (real (unat b) / 255) * (real (unat b) / 255) \<le> 1"
proof (rule unit_square)
  show "0 \<le> real (unat b) / 255" using byte_range [of b] by (simp del: of_nat_unat)
  show "real (unat b) / 255 \<le> 1" using byte_range [of b] by (simp del: of_nat_unat)
qed

lemma sumsq_bounds:
  "0 \<le> acc \<Longrightarrow> 0 \<le> foldl (\<lambda>sum b. sum + (real (unat b) / 255) * (real (unat b) / 255)) acc (d :: 8 word list)
   \<and> foldl (\<lambda>sum b. sum + (real (unat b) / 255) * (real (unat b) / 255)) acc d \<le> acc + real (length d)"
proof (induction d arbitrary: acc)
  case Nil
  then show ?case by simp
next
  case (Cons b d)
  let ?q = "(real (unat b) / 255) * (real (unat b) / 255)"
  have xx: "0 \<le> ?q" "?q \<le> 1" using normalized_square [of b] by blast+
  from Cons.prems xx have "0 \<le> acc + ?q" by linarith
  from Cons.IH [OF this] xx show ?case by (simp del: of_nat_unat)
qed

lemma rms_range: "d \<noteq> [] \<Longrightarrow> 0 \<le> rms d \<and> rms d \<le> 1"
proof -
  assume "d \<noteq> []"
  then have len: "0 < real (length d)" by simp
  let ?s = "foldl (\<lambda>sum b. sum + (real (unat b) / 255) * (real (unat b) / 255)) 0 d"
  from sumsq_bounds [of 0 d] have s: "0 \<le> ?s" "?s \<le> real (length d)" by simp_all
  from s len have "0 \<le> ?s / real (length d)" "?s / real (length d) \<le> 1"
    by (simp_all add: divide_le_eq)
  then show ?thesis by (simp add: rms_def)
qed

lemma rms_replicate: "0 < n \<Longrightarrow> rms (replicate n b) = real (unat b) / 255"
proof -
  assume n: "0 < n"
  let ?q = "(real (unat b) / 255) * (real (unat b) / 255)"
  have fold: "foldl (\<lambda>sum b. sum + (real (unat b) / 255) * (real (unat b) / 255)) acc (replicate k b)
                = acc + real k * ?q" for acc k
    by (induction k arbitrary: acc) (simp_all del: of_nat_unat add: algebra_simps)
  have "rms (replicate n b) = sqrt ((0 + real n * ?q) / real n)"
    unfolding rms_def fold by simp
  also have "(0 + real n * ?q) / real n = ?q" using n by simp
  also have "sqrt ?q = \<bar>real (unat b) / 255\<bar>" by (rule real_sqrt_abs2)
  also have "\<dots> = real (unat b) / 255" using byte_range [of b] by (simp del: of_nat_unat)
  finally show ?thesis .
qed

text \<open>
  C7.  With no buffer (no audio data) \<open>getRMSVolume\<close> returns 0.  With a buffer, the
  normalized RMS lies in [0,1], the result is \<open>min 100 (rms * 250)\<close> unless that is
  strictly below 8, in which case it is exactly 0, and the result lies in [0,100].
\<close>

theorem conditioner_range_and_gate:
  "(dataArray a = None \<longrightarrow> getRMSVolume a = 0) \<and>
   (\<forall>d. dataArray a = Some d \<and> d \<noteq> [] \<longrightarrow>
      0 \<le> rms d \<and> rms d \<le> 1 \<and>
      getRMSVolume a = (if min 100 (rms d * 250) < 8 then 0 else min 100 (rms d * 250)) \<and>
      0 \<le> getRMSVolume a \<and> getRMSVolume a \<le> 100)"
  using rms_range by (auto simp add: getRMSVolume_def Let_def)

theorem conditioner_range_and_gate_witness:
  "getRMSVolume (audioAnalyzer newEcoLogroApp) = 0 \<and>
   rms [5] * 250 < 8 \<and>
   getRMSVolume \<lparr> dataArray = Some [5], isInitialized = True, isAnalyzing = True \<rparr> = 0 \<and>
   getRMSVolume \<lparr> dataArray = Some loudFrame, isInitialized = True, isAnalyzing = True \<rparr> = 100"
proof -
  have r5: "rms [5] = 5 / 255" using rms_replicate [of 1 5] by simp
  have rl: "rms loudFrame = 1" using rms_replicate [of 1024 255] by (simp add: loudFrame_def)
  have nl: "loudFrame \<noteq> []" by (simp add: loudFrame_def)
  show ?thesis
    using conditioner_range_and_gate [of "audioAnalyzer newEcoLogroApp"]
      conditioner_range_and_gate [of "\<lparr> dataArray = Some [5], isInitialized = True, isAnalyzing = True \<rparr>"]
      conditioner_range_and_gate [of "\<lparr> dataArray = Some loudFrame, isInitialized = True, isAnalyzing = True \<rparr>"]
      r5 rl nl
    by (simp add: newEcoLogroApp_def)
qed

section \<open>Hold and decay\<close>

text \<open>
  C3.  Hold: for every stabilizer state and every sample not above
  \<open>lastSignificantVolume\<close>, if the time since \<open>lastVolumeTimestamp\<close> is strictly less than
  the hold duration, the displayed volume after the tick is \<open>lastSignificantVolume\<close>, and
  \<open>lastSignificantVolume\<close> and \<open>lastVolumeTimestamp\<close> are unchanged.
\<close>

theorem hold_keeps_peak:
  "vol \<le> lastSignificantVolume app \<Longrightarrow>
   currentTime - lastVolumeTimestamp app < volumeHoldDuration app \<Longrightarrow>
   displayedVolume (updateThermometer currentTime vol app) = lastSignificantVolume app \<and>
   lastSignificantVolume (updateThermometer currentTime vol app) = lastSignificantVolume app \<and>
   lastVolumeTimestamp (updateThermometer currentTime vol app) = lastVolumeTimestamp app"
  by (simp add: updateThermometer_def)

theorem hold_keeps_peak_witness:
  "(10::real) \<le> lastSignificantVolume peakApp \<and>
   1001800 - lastVolumeTimestamp peakApp < volumeHoldDuration peakApp \<and>
   displayedVolume (updateThermometer 1001800 10 peakApp) = 50 \<and>
   lastSignificantVolume (updateThermometer 1001800 10 peakApp) = 50 \<and>
   lastVolumeTimestamp (updateThermometer 1001800 10 peakApp) = 1000000"
proof -
  have peak: "lastSignificantVolume peakApp = 50" "lastVolumeTimestamp peakApp = 1000000"
    "volumeHoldDuration peakApp = 2000"
    by (simp_all add: peakApp_def newEcoLogroApp_def updateThermometer_def)
  show ?thesis using hold_keeps_peak [of 10 peakApp 1001800] peak by simp
qed

text \<open>
  C4.  Decay: for every stabilizer state and every sample not above
  \<open>lastSignificantVolume\<close>, once the time since the peak has reached the hold duration the
  displayed volume is \<open>lastSignificantVolume * (1 - progress) + sample * progress\<close> with
  \<open>progress = min 1 ((elapsed - hold) / 1000)\<close>; at \<open>elapsed = hold + 1000\<close> the displayed
  volume is the sample, and the stabilizer re-anchors to the sample and the current time.
\<close>

theorem decay_interpolates:
  assumes "vol \<le> lastSignificantVolume app"
    and "volumeHoldDuration app \<le> currentTime - lastVolumeTimestamp app"
  shows "displayedVolume (updateThermometer currentTime vol app) =
           lastSignificantVolume app
             * (1 - min 1 (real_of_int (currentTime - lastVolumeTimestamp app - volumeHoldDuration app) / 1000))
           + vol * min 1 (real_of_int (currentTime - lastVolumeTimestamp app - volumeHoldDuration app) / 1000)
         \<and> (currentTime - lastVolumeTimestamp app = volumeHoldDuration app + 1000 \<longrightarrow>
              displayedVolume (updateThermometer currentTime vol app) = vol \<and>
              lastSignificantVolume (updateThermometer currentTime vol app) = vol \<and>
              lastVolumeTimestamp (updateThermometer currentTime vol app) = currentTime)"
  using assms by (simp add: updateThermometer_def Let_def)

theorem decay_interpolates_witness:
  "(10::real) \<le> lastSignificantVolume peakApp \<and>
   volumeHoldDuration peakApp \<le> 1002500 - lastVolumeTimestamp peakApp \<and>
   displayedVolume (updateThermometer 1002500 10 peakApp) = 30 \<and>
   1003000 - lastVolumeTimestamp peakApp = volumeHoldDuration peakApp + 1000 \<and>
   displayedVolume (updateThermometer 1003000 10 peakApp) = 10 \<and>
   lastSignificantVolume (updateThermometer 1003000 10 peakApp) = 10 \<and>
   lastVolumeTimestamp (updateThermometer 1003000 10 peakApp) = 1003000"
proof -
  have peak: "lastSignificantVolume peakApp = 50" "lastVolumeTimestamp peakApp = 1000000"
    "volumeHoldDuration peakApp = 2000"
    by (simp_all add: peakApp_def newEcoLogroApp_def updateThermometer_def)
  show ?thesis
    using decay_interpolates [of 10 peakApp 1002500] decay_interpolates [of 10 peakApp 1003000] peak
    by simp
qed

section \<open>Zone classifier\<close>

lemma zeroFloor_config:
  "lowerThreshold (config zeroFloorManager) = 0" "upperThreshold (config zeroFloorManager) = 75"
  by (simp_all add: zeroFloorManager_def updateConfiguration_def mergeConfig_def noChange_def
        newStateManager_def Let_def)

text \<open>
  C2, as amended.  For every value and every configuration, \<open>determineState\<close> never
  yields \<open>WARNING\<close>: it yields one of \<open>SILENT\<close>, \<open>LOW\<close>, \<open>OPTIMAL\<close>, \<open>DANGER\<close>.  It yields
  \<open>SILENT\<close> when the value is below 3, and for a value of at least 3, \<open>LOW\<close> below the
  lower threshold, \<open>OPTIMAL\<close> between the thresholds (inclusive) and, in a configuration
  with \<open>lowerThreshold < upperThreshold\<close>, \<open>DANGER\<close> above the upper threshold.  This
  holds in particular for every value in [0,100].
\<close>

theorem classifier_bands:
  "determineState sm v \<noteq> WARNING
   \<and> determineState sm v \<in> {SILENT, LOW, OPTIMAL, DANGER}
   \<and> (v < 3 \<longrightarrow> determineState sm v = SILENT)
   \<and> (3 \<le> v \<and> v < lowerThreshold (config sm) \<longrightarrow> determineState sm v = LOW)
   \<and> (3 \<le> v \<and> lowerThreshold (config sm) \<le> v \<and> v \<le> upperThreshold (config sm)
        \<longrightarrow> determineState sm v = OPTIMAL)
   \<and> (lowerThreshold (config sm) < upperThreshold (config sm)
        \<and> 3 \<le> v \<and> upperThreshold (config sm) < v \<longrightarrow> determineState sm v = DANGER)"
  by (simp add: determineState_def Let_def)

theorem classifier_bands_witness:
  "determineState zeroFloorManager 1 = SILENT \<and>
   determineState newStateManager 10 = LOW \<and>
   determineState newStateManager 50 = OPTIMAL \<and>
   determineState newStateManager 80 = DANGER"
proof -
  have cfg: "lowerThreshold (config newStateManager) = 25" "upperThreshold (config newStateManager) = 75"
    by (simp_all add: newStateManager_def)
  show ?thesis
    using classifier_bands [of zeroFloorManager 1] classifier_bands [of newStateManager 10]
      classifier_bands [of newStateManager 50] classifier_bands [of newStateManager 80]
      cfg zeroFloor_config
    by simp
qed

text \<open>
  With the lower threshold at 0 the value 1 lies inside the band
  \<open>lowerThreshold \<le> value \<le> upperThreshold\<close> of a valid configuration, and the classifier
  answers \<open>SILENT\<close>, not \<open>OPTIMAL\<close>: the silence test comes first.
\<close>

theorem silent_inside_band_counterexample:
  "(0::real) \<le> 1 \<and> (1::real) \<le> 100
   \<and> lowerThreshold (config zeroFloorManager) < upperThreshold (config zeroFloorManager)
   \<and> lowerThreshold (config zeroFloorManager) \<le> 1 \<and> 1 \<le> upperThreshold (config zeroFloorManager)
   \<and> determineState zeroFloorManager 1 = SILENT
   \<and> determineState zeroFloorManager 1 \<noteq> OPTIMAL"
  by (simp add: zeroFloor_config determineState_def Let_def)

section \<open>Configuration update\<close>

lemma map_add_twice: "(m ++ k) ++ k = m ++ (k :: 'a \<rightharpoonup> 'b)"
  by (simp add: map_add_def fun_eq_iff split: option.splits)

lemma updateConfiguration_lower:
  "lowerThreshold (config (updateConfiguration n sm))
     = max 0 (min 85 (lowerThreshold (mergeConfig (config sm) n)))"
  by (simp add: updateConfiguration_def Let_def)

lemma updateConfiguration_upper:
  "upperThreshold (config (updateConfiguration n sm))
     = (if max 15 (min 100 (upperThreshold (mergeConfig (config sm) n)))
             \<le> max 0 (min 85 (lowerThreshold (mergeConfig (config sm) n)))
        then max 0 (min 85 (lowerThreshold (mergeConfig (config sm) n))) + 10
        else max 15 (min 100 (upperThreshold (mergeConfig (config sm) n))))"
proof -
  define c0 where "c0 = mergeConfig (config sm) n"
  define l where "l = max 0 (min 85 (lowerThreshold c0))"
  define u where "u = max 15 (min 100 (upperThreshold c0))"
  have "config (updateConfiguration n sm)
          = (if u \<le> l
             then c0\<lparr>lowerThreshold := l, upperThreshold := u,
                     sensitivity := max 0 (min 100 (sensitivity c0)),
                     dampening := max 0 (min 100 (dampening c0)),
                     upperThreshold := l + 10\<rparr>
             else c0\<lparr>lowerThreshold := l, upperThreshold := u,
                     sensitivity := max 0 (min 100 (sensitivity c0)),
                     dampening := max 0 (min 100 (dampening c0))\<rparr>)"
    by (simp add: updateConfiguration_def Let_def c0_def [symmetric] l_def [symmetric] u_def [symmetric]
          del: max.bounded_iff min.bounded_iff max_less_iff_conj min_less_iff_conj)
  then have "upperThreshold (config (updateConfiguration n sm)) = (if u \<le> l then l + 10 else u)"
    by simp
  then show ?thesis by (simp only: l_def u_def c0_def)
qed

lemma updateConfiguration_sensitivity:
  "sensitivity (config (updateConfiguration n sm))
     = max 0 (min 100 (sensitivity (mergeConfig (config sm) n)))"
  by (simp add: updateConfiguration_def Let_def)

lemma updateConfiguration_dampening:
  "dampening (config (updateConfiguration n sm))
     = max 0 (min 100 (dampening (mergeConfig (config sm) n)))"
  by (simp add: updateConfiguration_def Let_def)

lemma updateConfiguration_other:
  "otherProps (config (updateConfiguration n sm)) = otherProps (config sm) ++ newOtherProps n"
  "config.more (config (updateConfiguration n sm)) = config.more (mergeConfig (config sm) n)"
  by (simp_all add: updateConfiguration_def mergeConfig_def Let_def)

lemma updateConfiguration_rest:
  "updateConfiguration n sm = sm\<lparr>config := config (updateConfiguration n sm)\<rparr>"
  by (simp add: updateConfiguration_def Let_def)

lemma mergeConfig_fields:
  "lowerThreshold (mergeConfig c n) = (case newLowerThreshold n of None \<Rightarrow> lowerThreshold c | Some v \<Rightarrow> v)"
  "upperThreshold (mergeConfig c n) = (case newUpperThreshold n of None \<Rightarrow> upperThreshold c | Some v \<Rightarrow> v)"
  "sensitivity (mergeConfig c n) = (case newSensitivity n of None \<Rightarrow> sensitivity c | Some v \<Rightarrow> v)"
  "dampening (mergeConfig c n) = (case newDampening n of None \<Rightarrow> dampening c | Some v \<Rightarrow> v)"
  "otherProps (mergeConfig c n) = otherProps c ++ newOtherProps n"
  "config.more (mergeConfig c n) = ()"
  by (simp_all add: mergeConfig_def)

lemma clamp_again:
  fixes x lo hi :: real
  assumes "lo \<le> hi"
  shows "max lo (min hi (max lo (min hi x))) = max lo (min hi x)"
  using assms by (simp add: max_def min_def)

lemma forced_upper_stable:
  fixes l u :: real
  assumes "0 \<le> l" "l \<le> 85" "15 \<le> u" "u \<le> 100"
  defines "w \<equiv> (if u \<le> l then l + 10 else u)"
  shows "max 15 (min 100 w) = w" and "\<not> w \<le> l"
  using assms by (simp_all add: max_def min_def)

lemma updateConfiguration_twice:
  "updateConfiguration n (updateConfiguration n sm) = updateConfiguration n sm"
proof -
  let ?sm1 = "updateConfiguration n sm"
  let ?c1 = "config ?sm1"
  let ?c2 = "config (updateConfiguration n ?sm1)"
  define l where "l = max 0 (min 85 (lowerThreshold (mergeConfig (config sm) n)))"
  define u where "u = max 15 (min 100 (upperThreshold (mergeConfig (config sm) n)))"
  define w where "w = (if u \<le> l then l + 10 else u)"
  have lb: "0 \<le> l" "l \<le> 85" and ub: "15 \<le> u" "u \<le> 100"
    by (simp_all add: l_def u_def)
  have stable: "max 15 (min 100 w) = w" "\<not> w \<le> l"
    using forced_upper_stable [OF lb ub] by (simp_all add: w_def)
  have l1: "lowerThreshold ?c1 = l" by (simp only: updateConfiguration_lower l_def)
  have u1: "upperThreshold ?c1 = w" by (simp only: updateConfiguration_upper l_def u_def w_def)
  have l2': "max 0 (min 85 (lowerThreshold (mergeConfig ?c1 n))) = l"
  proof (cases "newLowerThreshold n")
    case None
    then have "lowerThreshold (mergeConfig ?c1 n) = l" by (simp add: mergeConfig_fields l1)
    then show ?thesis using lb by simp
  next
    case (Some v)
    then show ?thesis by (simp add: mergeConfig_fields l_def)
  qed
  have u2': "(if max 15 (min 100 (upperThreshold (mergeConfig ?c1 n))) \<le> l then l + 10
              else max 15 (min 100 (upperThreshold (mergeConfig ?c1 n)))) = w"
  proof (cases "newUpperThreshold n")
    case None
    then have "upperThreshold (mergeConfig ?c1 n) = w" by (simp add: mergeConfig_fields u1)
    then show ?thesis using stable by simp
  next
    case (Some v)
    then have "max 15 (min 100 (upperThreshold (mergeConfig ?c1 n))) = u"
      by (simp add: mergeConfig_fields u_def)
    then show ?thesis by (simp only: w_def)
  qed
  have l2: "lowerThreshold ?c2 = lowerThreshold ?c1"
    by (simp only: updateConfiguration_lower [of n ?sm1] l2' l1)
  have u2: "upperThreshold ?c2 = upperThreshold ?c1"
    by (simp only: updateConfiguration_upper [of n ?sm1] l2' u2' u1)
  have s2: "sensitivity ?c2 = sensitivity ?c1"
    by (cases "newSensitivity n")
       (simp_all add: updateConfiguration_sensitivity mergeConfig_fields clamp_again)
  have d2: "dampening ?c2 = dampening ?c1"
    by (cases "newDampening n")
       (simp_all add: updateConfiguration_dampening mergeConfig_fields clamp_again)
  have o2: "otherProps ?c2 = otherProps ?c1"
    by (simp add: updateConfiguration_other map_add_twice)
  have m2: "config.more ?c2 = config.more ?c1"
    by (simp add: updateConfiguration_other mergeConfig_fields)
  have "?c2 = ?c1"
    using l2 u2 s2 d2 o2 m2 by (rule config.equality)
  moreover have "updateConfiguration n ?sm1 = ?sm1\<lparr>config := ?c2\<rparr>"
    by (rule updateConfiguration_rest)
  moreover have "?sm1\<lparr>config := ?c1\<rparr> = ?sm1" by simp
  ultimately show ?thesis by simp
qed

text \<open>
  C5.  For every argument and every prior configuration, \<open>updateConfiguration\<close> leaves
  \<open>lowerThreshold\<close> clamped into [0,85] and \<open>upperThreshold\<close> within [15,100]; when the
  clamped lower threshold reaches the clamped upper threshold the upper threshold
  becomes \<open>lowerThreshold + 10\<close>, otherwise it is the clamped value; applying the update
  twice with the same argument gives the state of applying it once; and afterwards
  \<open>lowerThreshold < upperThreshold\<close>.
\<close>

theorem updateConfiguration_clamps:
  "lowerThreshold (config (updateConfiguration n sm))
      = max 0 (min 85 (lowerThreshold (mergeConfig (config sm) n)))
   \<and> 0 \<le> lowerThreshold (config (updateConfiguration n sm))
   \<and> lowerThreshold (config (updateConfiguration n sm)) \<le> 85
   \<and> 15 \<le> upperThreshold (config (updateConfiguration n sm))
   \<and> upperThreshold (config (updateConfiguration n sm)) \<le> 100
   \<and> (max 15 (min 100 (upperThreshold (mergeConfig (config sm) n)))
         \<le> max 0 (min 85 (lowerThreshold (mergeConfig (config sm) n)))
       \<longrightarrow> upperThreshold (config (updateConfiguration n sm))
             = lowerThreshold (config (updateConfiguration n sm)) + 10)
   \<and> (max 0 (min 85 (lowerThreshold (mergeConfig (config sm) n)))
         < max 15 (min 100 (upperThreshold (mergeConfig (config sm) n)))
       \<longrightarrow> upperThreshold (config (updateConfiguration n sm))
             = max 15 (min 100 (upperThreshold (mergeConfig (config sm) n))))
   \<and> updateConfiguration n (updateConfiguration n sm) = updateConfiguration n sm
   \<and> lowerThreshold (config (updateConfiguration n sm))
       < upperThreshold (config (updateConfiguration n sm))"
proof -
  define l where "l = max 0 (min 85 (lowerThreshold (mergeConfig (config sm) n)))"
  define u where "u = max 15 (min 100 (upperThreshold (mergeConfig (config sm) n)))"
  have lb: "0 \<le> l" "l \<le> 85" and ub: "15 \<le> u" "u \<le> 100"
    by (simp_all add: l_def u_def)
  have l1: "lowerThreshold (config (updateConfiguration n sm)) = l"
    by (simp only: updateConfiguration_lower l_def)
  have u1: "upperThreshold (config (updateConfiguration n sm)) = (if u \<le> l then l + 10 else u)"
    by (simp only: updateConfiguration_upper l_def u_def)
  have "l = l \<and> 0 \<le> l \<and> l \<le> 85 \<and> 15 \<le> (if u \<le> l then l + 10 else u)
        \<and> (if u \<le> l then l + 10 else u) \<le> 100
        \<and> (u \<le> l \<longrightarrow> (if u \<le> l then l + 10 else u) = l + 10)
        \<and> (l < u \<longrightarrow> (if u \<le> l then l + 10 else u) = u)
        \<and> l < (if u \<le> l then l + 10 else u)"
    using lb ub by simp
  then show ?thesis
    unfolding l1 u1 updateConfiguration_twice l_def [symmetric] u_def [symmetric] by simp
qed

theorem updateConfiguration_clamps_witness:
  "lowerThreshold (mergeConfig (config newStateManager) crossedThresholds) = 120
   \<and> upperThreshold (mergeConfig (config newStateManager) crossedThresholds) = - 4
   \<and> lowerThreshold (config (updateConfiguration crossedThresholds newStateManager)) = 85
   \<and> upperThreshold (config (updateConfiguration crossedThresholds newStateManager)) = 95
   \<and> updateConfiguration crossedThresholds (updateConfiguration crossedThresholds newStateManager)
       = updateConfiguration crossedThresholds newStateManager"
proof -
  have m: "lowerThreshold (mergeConfig (config newStateManager) crossedThresholds) = 120"
    "upperThreshold (mergeConfig (config newStateManager) crossedThresholds) = - 4"
    by (simp_all add: mergeConfig_def crossedThresholds_def noChange_def newStateManager_def)
  show ?thesis using updateConfiguration_clamps [of crossedThresholds newStateManager] m by simp
qed

section \<open>Consistency score\<close>

lemma endSession_Some:
  assumes "endSession now tr ls = (Some summary, tr', ls')"
  obtains s where "currentSession tr = Some s" "isTracking tr"
    "summary = s\<lparr>totalDuration := (now - startTime s) div 1000,
                  consistencyScore :=
                    calculateConsistency
                      (tr\<lparr>isTracking := False,
                          timerInterval := (if timerInterval tr = Some 0 then Some 0 else None),
                          currentSession := Some (s\<lparr>totalDuration := (now - startTime s) div 1000\<rparr>)\<rparr>)\<rparr>"
    "currentSession tr' = Some summary" "\<not> isTracking tr'"
    "ls' = saveSessionToHistory summary ls"
  using assms
  by (cases "currentSession tr"; cases "isTracking tr") (auto simp add: endSession_def Let_def)

text \<open>
  C6.  For every session that \<open>endSession\<close> finalizes, the consistency score is 0 when
  the green-zone time is 0, whatever the drop count, and
  \<open>max 0 (100 - min (dropCount * 5) 80)\<close> when the green-zone time is positive; so with a
  positive green-zone time and at least 16 drops the score is 20.
\<close>

theorem consistency_score:
  assumes "endSession now tr ls = (Some summary, tr', ls')"
  shows "(greenZoneTime summary = 0 \<longrightarrow> consistencyScore summary = 0)
       \<and> (0 < greenZoneTime summary \<longrightarrow>
            consistencyScore summary = max 0 (100 - min (dropCount summary * 5) 80))
       \<and> (0 < greenZoneTime summary \<and> 16 \<le> dropCount summary \<longrightarrow> consistencyScore summary = 20)"
proof -
  from assms obtain s where s: "currentSession tr = Some s"
    and sum: "summary = s\<lparr>totalDuration := (now - startTime s) div 1000,
                  consistencyScore :=
                    calculateConsistency
                      (tr\<lparr>isTracking := False,
                          timerInterval := (if timerInterval tr = Some 0 then Some 0 else None),
                          currentSession := Some (s\<lparr>totalDuration := (now - startTime s) div 1000\<rparr>)\<rparr>)\<rparr>"
    by (rule endSession_Some)
  have g: "greenZoneTime summary = greenZoneTime s" and d: "dropCount summary = dropCount s"
    by (simp_all add: sum)
  have c: "consistencyScore summary
             = (if greenZoneTime s = 0 then 0 else max 0 (100 - min (dropCount s * 5) 80))"
    by (simp add: sum calculateConsistency_def Let_def)
  show ?thesis unfolding g d c by auto
qed

theorem consistency_score_witness:
  "fst (endSession 1090000 droppyTracker emptyStorage)
     = Some (droppySession\<lparr>totalDuration := 90, consistencyScore := 20\<rparr>)
   \<and> 0 < greenZoneTime (the (fst (endSession 1090000 droppyTracker emptyStorage)))
   \<and> 16 \<le> dropCount (the (fst (endSession 1090000 droppyTracker emptyStorage)))
   \<and> consistencyScore (the (fst (endSession 1090000 droppyTracker emptyStorage))) = 20"
proof -
  let ?r = "endSession 1090000 droppyTracker emptyStorage"
  have f: "fst ?r = Some (droppySession\<lparr>totalDuration := 90, consistencyScore := 20\<rparr>)"
    by (simp add: endSession_def droppyTracker_def droppySession_def activeTracker_def
          startSession_def newSessionTracker_def freshSession_def calculateConsistency_def Let_def)
  then have e: "?r = (Some (the (fst ?r)), fst (snd ?r), snd (snd ?r))"
    by (simp add: prod_eq_iff)
  have g: "greenZoneTime (the (fst ?r)) = 30" "dropCount (the (fst ?r)) = 20"
    by (simp_all add: f droppySession_def freshSession_def)
  show ?thesis using consistency_score [OF e] f g by simp
qed

section \<open>Range and settling of the displayed volume\<close>

text \<open>
  What one tick copies.  Outside the decay window the display is a copy of the sample
  or of the held peak, and the held peak is always a copy of a sample or unchanged.
\<close>

lemma tick_anchored_or_decaying:
  "displayedVolume (updateThermometer t vol app) = lastSignificantVolume (updateThermometer t vol app)
   \<or> decaying t vol app"
proof (cases "t - lastVolumeTimestamp app - volumeHoldDuration app < 1000")
  case True
  then show ?thesis by (simp add: updateThermometer_def decaying_def Let_def)
next
  case False
  then have p: "min 1 (real_of_int (t - lastVolumeTimestamp app - volumeHoldDuration app) / 1000) = 1"
    by simp
  show ?thesis
    unfolding updateThermometer_def Let_def p by simp
qed

lemma tick_peak:
  "lastSignificantVolume (updateThermometer t vol app) = vol
   \<or> lastSignificantVolume (updateThermometer t vol app) = lastSignificantVolume app"
  by (simp add: updateThermometer_def Let_def)

lemma tick_copies:
  assumes "\<not> decaying t vol app"
  shows "displayedVolume (updateThermometer t vol app) = vol
         \<or> displayedVolume (updateThermometer t vol app) = lastSignificantVolume app"
proof (cases "vol \<le> lastSignificantVolume app \<and> volumeHoldDuration app \<le> t - lastVolumeTimestamp app")
  case True
  with assms have "\<not> t - lastVolumeTimestamp app - volumeHoldDuration app < 1000"
    by (simp add: decaying_def)
  then have p: "min 1 (real_of_int (t - lastVolumeTimestamp app - volumeHoldDuration app) / 1000) = 1"
    by simp
  show ?thesis unfolding updateThermometer_def Let_def p by simp
next
  case False
  then show ?thesis by (auto simp add: updateThermometer_def Let_def)
qed

lemma tick_keeps:
  "volumeHoldDuration (updateThermometer t vol app) = volumeHoldDuration app"
  "decaying t vol app \<Longrightarrow> lastVolumeTimestamp (updateThermometer t vol app) = lastVolumeTimestamp app"
  by (simp_all add: updateThermometer_def decaying_def Let_def)

text \<open>Two consecutive ticks, the hold duration possibly reassigned in between.\<close>

lemma rise_explained:
  assumes time: "t1 \<le> t2"
    and rise: "displayedVolume (updateThermometer t1 v1 app)
                 < displayedVolume (updateThermometer t2 v2 (setPersistence h2 (updateThermometer t1 v1 app)))"
  shows "displayedVolume (updateThermometer t1 v1 app) < v2
         \<or> decaying t2 v2 (setPersistence h2 (updateThermometer t1 v1 app))
         \<or> volumeHoldDuration app < h2"
proof (rule ccontr)
  let ?app1 = "updateThermometer t1 v1 app"
  let ?pre = "setPersistence h2 ?app1"
  assume "\<not> ?thesis"
  then have n: "\<not> displayedVolume ?app1 < v2" "\<not> decaying t2 v2 ?pre" "h2 \<le> volumeHoldDuration app"
    by simp_all
  have pre: "lastSignificantVolume ?pre = lastSignificantVolume ?app1"
    "lastVolumeTimestamp ?pre = lastVolumeTimestamp ?app1" "volumeHoldDuration ?pre = h2"
    by (simp_all add: setPersistence_def)
  from tick_copies [OF n(2)] rise n(1)
  have held: "displayedVolume (updateThermometer t2 v2 ?pre) = lastSignificantVolume ?app1"
    by (auto simp add: pre)
  with rise have "displayedVolume ?app1 \<noteq> lastSignificantVolume ?app1" by simp
  with tick_anchored_or_decaying [of t1 v1 app] have d1: "decaying t1 v1 app" by simp
  then have ts: "lastVolumeTimestamp ?app1 = lastVolumeTimestamp app" by (rule tick_keeps)
  from d1 have e1: "volumeHoldDuration app \<le> t1 - lastVolumeTimestamp app"
    by (simp add: decaying_def)
  have notrise: "\<not> lastSignificantVolume ?pre < v2"
  proof
    assume "lastSignificantVolume ?pre < v2"
    then have "displayedVolume (updateThermometer t2 v2 ?pre) = v2"
      by (simp add: updateThermometer_def)
    with rise n(1) show False by simp
  qed
  have "h2 \<le> t2 - lastVolumeTimestamp ?pre" using e1 n(3) time by (simp add: pre ts)
  with notrise n(2) have late: "\<not> t2 - lastVolumeTimestamp ?pre - h2 < 1000"
    by (simp add: decaying_def pre)
  then have p: "min 1 (real_of_int (t2 - lastVolumeTimestamp ?pre - volumeHoldDuration ?pre) / 1000) = 1"
    by (simp add: pre)
  have "displayedVolume (updateThermometer t2 v2 ?pre) = v2"
    using notrise \<open>h2 \<le> t2 - lastVolumeTimestamp ?pre\<close>
    unfolding updateThermometer_def [of t2 v2 ?pre] Let_def p by (simp add: pre)
  with rise n(1) show False by simp
qed


lemma length_runTicks: "length (runTicks app ticks) = length ticks"
  by (induction ticks arbitrary: app) simp_all

lemma runTicks_nth:
  "i < length ticks \<Longrightarrow>
     runTicks app ticks ! i
       = updateThermometer (tickTime (ticks ! i)) (tickSample (ticks ! i))
           (setPersistence (tickHold (ticks ! i)) ((app # runTicks app ticks) ! i))"
proof (induction ticks arbitrary: app i)
  case Nil
  then show ?case by simp
next
  case (Cons k ticks)
  show ?case
  proof (cases i)
    case 0
    then show ?thesis by simp
  next
    case (Suc j)
    with Cons.prems have "j < length ticks" by simp
    from Cons.IH [OF this] show ?thesis using Suc by simp
  qed
qed

lemma runTicks_peak_range:
  assumes "0 \<le> lastSignificantVolume app" "lastSignificantVolume app \<le> 100"
    and "\<forall>k \<in> set ticks. 0 \<le> tickSample k \<and> tickSample k \<le> 100"
  shows "\<forall>a \<in> set (app # runTicks app ticks).
           0 \<le> lastSignificantVolume a \<and> lastSignificantVolume a \<le> 100"
  using assms
proof (induction ticks arbitrary: app)
  case Nil
  then show ?case by simp
next
  case (Cons k ticks)
  let ?app1 = "updateThermometer (tickTime k) (tickSample k) (setPersistence (tickHold k) app)"
  from Cons.prems(3) have v: "0 \<le> tickSample k" "tickSample k \<le> 100" by simp_all
  have "lastSignificantVolume (setPersistence (tickHold k) app) = lastSignificantVolume app"
    by (simp add: setPersistence_def)
  with tick_peak [of "tickTime k" "tickSample k" "setPersistence (tickHold k) app"] v Cons.prems(1,2)
  have l: "0 \<le> lastSignificantVolume ?app1" "lastSignificantVolume ?app1 \<le> 100"
    by auto
  have "\<forall>a \<in> set (?app1 # runTicks ?app1 ticks).
           0 \<le> lastSignificantVolume a \<and> lastSignificantVolume a \<le> 100"
    using l Cons.prems(3) by (intro Cons.IH) simp_all
  with Cons.prems(1,2) show ?case by simp
qed

text \<open>
  C8, as amended.  From a stabilizer whose \<open>lastSignificantVolume\<close> lies in [0,100], and
  for every list of ticks with samples in [0,100] and non-decreasing clock readings,
  whatever hold duration is in force at each tick: \<open>lastSignificantVolume\<close> lies in
  [0,100] after every tick; the displayed volume lies in [0,100] after every tick
  that is not inside the decay window (there it is the interpolation of C4); and the
  displayed volume increases from one tick to the next only if the new sample exceeds
  the previous displayed volume, or the new tick is inside the decay window, or the
  hold duration was raised between the two ticks.
\<close>

theorem displayed_bounded_and_settling:
  assumes "0 \<le> lastSignificantVolume app" and "lastSignificantVolume app \<le> 100"
    and "\<forall>k \<in> set ticks. 0 \<le> tickSample k \<and> tickSample k \<le> 100"
    and "sorted (map tickTime ticks)"
  shows "(\<forall>a \<in> set (runTicks app ticks).
            0 \<le> lastSignificantVolume a \<and> lastSignificantVolume a \<le> 100)
       \<and> (\<forall>i. i < length ticks
                \<and> \<not> decaying (tickTime (ticks ! i)) (tickSample (ticks ! i))
                      (setPersistence (tickHold (ticks ! i)) ((app # runTicks app ticks) ! i))
              \<longrightarrow> 0 \<le> displayedVolume (runTicks app ticks ! i)
                  \<and> displayedVolume (runTicks app ticks ! i) \<le> 100)
       \<and> (\<forall>i. Suc i < length ticks
                \<and> displayedVolume (runTicks app ticks ! i) < displayedVolume (runTicks app ticks ! Suc i)
              \<longrightarrow> displayedVolume (runTicks app ticks ! i) < tickSample (ticks ! Suc i)
                  \<or> decaying (tickTime (ticks ! Suc i)) (tickSample (ticks ! Suc i))
                       (setPersistence (tickHold (ticks ! Suc i)) (runTicks app ticks ! i))
                  \<or> tickHold (ticks ! i) < tickHold (ticks ! Suc i))"
proof (intro conjI allI impI)
  have peaks: "\<forall>a \<in> set (app # runTicks app ticks).
                 0 \<le> lastSignificantVolume a \<and> lastSignificantVolume a \<le> 100"
    using assms(1-3) by (rule runTicks_peak_range)
  then show "\<forall>a \<in> set (runTicks app ticks).
            0 \<le> lastSignificantVolume a \<and> lastSignificantVolume a \<le> 100"
    by simp
  fix i
  let ?k = "ticks ! i"
  let ?pre = "setPersistence (tickHold ?k) ((app # runTicks app ticks) ! i)"
  assume a: "i < length ticks \<and> \<not> decaying (tickTime ?k) (tickSample ?k) ?pre"
  then have "(app # runTicks app ticks) ! i \<in> set (app # runTicks app ticks)"
    by (intro nth_mem) (simp add: length_runTicks)
  with peaks have "0 \<le> lastSignificantVolume ((app # runTicks app ticks) ! i)"
    "lastSignificantVolume ((app # runTicks app ticks) ! i) \<le> 100"
    by blast+
  then have l: "0 \<le> lastSignificantVolume ?pre" "lastSignificantVolume ?pre \<le> 100"
    by (simp_all add: setPersistence_def)
  from a have "?k \<in> set ticks" by simp
  with assms(3) have v: "0 \<le> tickSample ?k" "tickSample ?k \<le> 100" by blast+
  have r: "runTicks app ticks ! i = updateThermometer (tickTime ?k) (tickSample ?k) ?pre"
    using a by (simp add: runTicks_nth)
  from a have "\<not> decaying (tickTime ?k) (tickSample ?k) ?pre" by simp
  from tick_copies [OF this] l v
  show "0 \<le> displayedVolume (runTicks app ticks ! i)"
    and "displayedVolume (runTicks app ticks ! i) \<le> 100"
    unfolding r by auto
next
  fix i
  let ?k1 = "ticks ! i" and ?k2 = "ticks ! Suc i"
  let ?pre1 = "setPersistence (tickHold ?k1) ((app # runTicks app ticks) ! i)"
  assume a: "Suc i < length ticks
                \<and> displayedVolume (runTicks app ticks ! i) < displayedVolume (runTicks app ticks ! Suc i)"
  then have i: "i < length ticks" "Suc i < length ticks" by simp_all
  have r1: "runTicks app ticks ! i = updateThermometer (tickTime ?k1) (tickSample ?k1) ?pre1"
    using i(1) by (rule runTicks_nth)
  have r2: "runTicks app ticks ! Suc i
              = updateThermometer (tickTime ?k2) (tickSample ?k2)
                  (setPersistence (tickHold ?k2) (runTicks app ticks ! i))"
    using runTicks_nth [OF i(2), of app] by simp
  have "map tickTime ticks ! i \<le> map tickTime ticks ! Suc i"
    using assms(4) i by (intro sorted_nth_mono) simp_all
  then have time: "tickTime ?k1 \<le> tickTime ?k2" using i by simp
  have h: "volumeHoldDuration ?pre1 = tickHold ?k1" by (simp add: setPersistence_def)
  from a have "displayedVolume (updateThermometer (tickTime ?k1) (tickSample ?k1) ?pre1)
                 < displayedVolume (updateThermometer (tickTime ?k2) (tickSample ?k2)
                     (setPersistence (tickHold ?k2)
                        (updateThermometer (tickTime ?k1) (tickSample ?k1) ?pre1)))"
    using r2 unfolding r1 by simp
  from rise_explained [OF time this]
  show "displayedVolume (runTicks app ticks ! i) < tickSample ?k2
        \<or> decaying (tickTime ?k2) (tickSample ?k2)
             (setPersistence (tickHold ?k2) (runTicks app ticks ! i))
        \<or> tickHold ?k1 < tickHold ?k2"
    unfolding r1 h .
qed

lemma rebound_run:
  "map displayedVolume (runTicks newEcoLogroApp reboundTicks) = [100, 50, 55]"
  "runTicks newEcoLogroApp reboundTicks ! 1
     = newEcoLogroApp\<lparr>lastSignificantVolume := 100, lastVolumeTimestamp := 1000000,
                       displayedVolume := 50\<rparr>"
  by (simp_all add: reboundTicks_def newEcoLogroApp_def updateThermometer_def setPersistence_def
        Let_def)

lemma raisedHold_run:
  "map displayedVolume (runTicks newEcoLogroApp raisedHoldTicks) = [100, 50, 100]"
  "runTicks newEcoLogroApp raisedHoldTicks ! 1
     = newEcoLogroApp\<lparr>lastSignificantVolume := 100, lastVolumeTimestamp := 1000000,
                       displayedVolume := 50\<rparr>"
  by (simp_all add: raisedHoldTicks_def newEcoLogroApp_def updateThermometer_def
        setPersistence_def Let_def)

theorem displayed_bounded_and_settling_witness:
  "map displayedVolume (runTicks newEcoLogroApp reboundTicks) = [100, 50, 55]
   \<and> \<not> displayedVolume (runTicks newEcoLogroApp reboundTicks ! 1) < tickSample (reboundTicks ! 2)
   \<and> \<not> tickHold (reboundTicks ! 1) < tickHold (reboundTicks ! 2)
   \<and> decaying (tickTime (reboundTicks ! 2)) (tickSample (reboundTicks ! 2))
         (setPersistence (tickHold (reboundTicks ! 2)) (runTicks newEcoLogroApp reboundTicks ! 1))
   \<and> map displayedVolume (runTicks newEcoLogroApp raisedHoldTicks) = [100, 50, 100]
   \<and> \<not> decaying (tickTime (raisedHoldTicks ! 2)) (tickSample (raisedHoldTicks ! 2))
         (setPersistence (tickHold (raisedHoldTicks ! 2))
            (runTicks newEcoLogroApp raisedHoldTicks ! 1))
   \<and> tickHold (raisedHoldTicks ! 1) < tickHold (raisedHoldTicks ! 2)"
proof -
  have start: "0 \<le> lastSignificantVolume newEcoLogroApp"
    "lastSignificantVolume newEcoLogroApp \<le> 100"
    by (simp_all add: newEcoLogroApp_def)
  have rb: "\<forall>k \<in> set reboundTicks. 0 \<le> tickSample k \<and> tickSample k \<le> 100"
    "sorted (map tickTime reboundTicks)" "Suc 1 < length reboundTicks"
    "tickSample (reboundTicks ! Suc 1) = 40" "tickHold (reboundTicks ! 1) = 2000"
    "tickHold (reboundTicks ! Suc 1) = 2000" "tickTime (reboundTicks ! Suc 1) = 1002750"
    by (simp_all add: reboundTicks_def)
  have rh: "\<forall>k \<in> set raisedHoldTicks. 0 \<le> tickSample k \<and> tickSample k \<le> 100"
    "sorted (map tickTime raisedHoldTicks)" "Suc 1 < length raisedHoldTicks"
    "tickSample (raisedHoldTicks ! Suc 1) = 0" "tickHold (raisedHoldTicks ! 1) = 2000"
    "tickHold (raisedHoldTicks ! Suc 1) = 5000" "tickTime (raisedHoldTicks ! Suc 1) = 1002600"
    by (simp_all add: raisedHoldTicks_def)
  have two: "(2::nat) = Suc 1" by simp
  have d1: "displayedVolume (runTicks newEcoLogroApp reboundTicks ! 1) = 50"
    "displayedVolume (runTicks newEcoLogroApp reboundTicks ! Suc 1) = 55"
    "displayedVolume (runTicks newEcoLogroApp raisedHoldTicks ! 1) = 50"
    "displayedVolume (runTicks newEcoLogroApp raisedHoldTicks ! Suc 1) = 100"
    using rebound_run(1) raisedHold_run(1) by (simp_all add: list_eq_iff_nth_eq)
  have "decaying 1002750 40 (setPersistence 2000 (runTicks newEcoLogroApp reboundTicks ! 1))"
    using displayed_bounded_and_settling [OF start rb(1,2)] rb(3-7) d1(1,2) by auto
  moreover have "\<not> decaying 1002600 0 (setPersistence 5000 (runTicks newEcoLogroApp raisedHoldTicks ! 1))"
    unfolding raisedHold_run(2) by (simp add: decaying_def setPersistence_def newEcoLogroApp_def)
  ultimately show ?thesis
    unfolding two using rebound_run(1) raisedHold_run(1) rb(3-7) rh(3-7) d1 by simp
qed

text \<open>
  From the initial state: a peak of 100, a sample of 0 half-way through the decay
  (display 50), then a sample of 40 a quarter of a second later.  The display rises from
  50 to 55 although the new sample, 40, does not exceed the display of the tick before.
  All three values are exact in doubles.
\<close>

theorem rebound_counterexample:
  "map tickTime reboundTicks = [1000000, 1002500, 1002750]
   \<and> map tickSample reboundTicks = [100, 0, 40]
   \<and> map tickHold reboundTicks = [2000, 2000, 2000]
   \<and> displayedVolume (runTicks newEcoLogroApp reboundTicks ! 1) = 50
   \<and> displayedVolume (runTicks newEcoLogroApp reboundTicks ! 2) = 55
   \<and> \<not> displayedVolume (runTicks newEcoLogroApp reboundTicks ! 1) < tickSample (reboundTicks ! 2)
   \<and> displayedVolume (runTicks newEcoLogroApp reboundTicks ! 1)
       < displayedVolume (runTicks newEcoLogroApp reboundTicks ! 2)"
  by (simp add: reboundTicks_def newEcoLogroApp_def updateThermometer_def setPersistence_def
        Let_def numeral_2_eq_2)

section \<open>State messages\<close>
















text \<open>
  The lookup is defined for one more kind of key: the name of a member that the table
  inherits from \<open>Object.prototype\<close>.  No caller passes such a key, since \<open>currentState\<close> is
  always a member of the enumeration.
\<close>

lemma inherited_member_found:
  "getProperty (info name) ''toString'' = Some (PrototypeMember ''toString'')"
  by (simp add: getProperty_def info_def objectPrototypeKeys_def)

section \<open>The sample that reaches the envelope\<close>

lemma frame_volumes:
  "dataArray a = Some silentFrame \<Longrightarrow> getRMSVolume a = 0"
  "dataArray a = Some loudFrame \<Longrightarrow> getRMSVolume a = 100"
proof -
  have "rms silentFrame = 0" using rms_replicate [of 1024 0] by (simp add: silentFrame_def)
  then show "dataArray a = Some silentFrame \<Longrightarrow> getRMSVolume a = 0"
    by (simp add: getRMSVolume_def)
  have "rms loudFrame = 1" using rms_replicate [of 1024 255] by (simp add: loudFrame_def)
  then show "dataArray a = Some loudFrame \<Longrightarrow> getRMSVolume a = 100"
    by (simp add: getRMSVolume_def)
qed

lemma foldl_add_sum_list: "foldl (\<lambda>sum v. sum + v) acc h = acc + sum_list (h :: real list)"
  by (induction h arbitrary: acc) simp_all

lemma handleVolumeUpdate_stabilizer:
  assumes "\<not> isPaused app"
  shows "displayedVolume (snd (handleVolumeUpdate t tt app))
           = displayedVolume (updateThermometer t (getRMSVolume (audioAnalyzer app)) app)"
    and "lastSignificantVolume (snd (handleVolumeUpdate t tt app))
           = lastSignificantVolume (updateThermometer t (getRMSVolume (audioAnalyzer app)) app)"
    and "lastVolumeTimestamp (snd (handleVolumeUpdate t tt app))
           = lastVolumeTimestamp (updateThermometer t (getRMSVolume (audioAnalyzer app)) app)"
  using assms by (simp_all add: handleVolumeUpdate_def Let_def split: prod.splits)

lemma updateThermometer_other:
  "stateManager (updateThermometer t v app) = stateManager app"
  "sessionTracker (updateThermometer t v app) = sessionTracker app"
  "audioAnalyzer (updateThermometer t v app) = audioAnalyzer app"
  "isPaused (updateThermometer t v app) = isPaused app"
  by (simp_all add: updateThermometer_def Let_def)

lemma updateState_manager:
  "currentState (snd (snd (updateState v sm))) = determineState sm v"
  "volumeHistory (snd (snd (updateState v sm))) = volumeHistory sm"
  "config (snd (snd (updateState v sm))) = config sm"
  by (simp_all add: updateState_def Let_def)

lemma handleVolumeUpdate_manager:
  assumes "\<not> isPaused app"
  shows "stateManager (snd (handleVolumeUpdate t tt app))
           = snd (snd (updateState (displayedVolume (updateThermometer t (getRMSVolume (audioAnalyzer app)) app))
                    (stateManager app)))"
  using assms by (simp add: handleVolumeUpdate_def Let_def updateThermometer_other split: prod.splits)

lemma applyDampening_history:
  "volumeHistory (snd (applyDampening v sm))
     = (if historyMaxLength sm < Suc (length (volumeHistory sm))
        then tl (volumeHistory sm @ [v]) else volumeHistory sm @ [v])"
  by (simp add: applyDampening_def Let_def)

lemma applyDampening_value:
  "fst (applyDampening v sm)
     = (if dampening (config sm) = 0 then v
        else v * (1 - dampening (config sm) / 100)
             + sum_list (volumeHistory (snd (applyDampening v sm)))
                 / real (length (volumeHistory (snd (applyDampening v sm))))
               * (dampening (config sm) / 100))"
  by (simp add: applyDampening_def Let_def foldl_add_sum_list)

text \<open>
  C1, as amended.  On every processing tick that is not paused, whatever the dampening
  setting, the hold-and-decay envelope receives the conditioned sample from
  \<open>getRMSVolume\<close> unchanged, the classifier receives the displayed volume that the
  envelope produces, and the dampening history is left as it was.  \<open>applyDampening\<close>,
  which the tick does not call, returns the sample itself when dampening is 0 and
  otherwise \<open>sample * (1 - d) + mean history * d\<close> with \<open>d = dampening / 100\<close>, over a
  history that keeps the last 5 samples, oldest evicted first.
\<close>

theorem raw_sample_reaches_envelope:
  "(\<not> isPaused app \<longrightarrow>
      displayedVolume (snd (handleVolumeUpdate currentTime trackTime app))
        = displayedVolume (updateThermometer currentTime (getRMSVolume (audioAnalyzer app)) app)
    \<and> lastSignificantVolume (snd (handleVolumeUpdate currentTime trackTime app))
        = lastSignificantVolume (updateThermometer currentTime (getRMSVolume (audioAnalyzer app)) app)
    \<and> lastVolumeTimestamp (snd (handleVolumeUpdate currentTime trackTime app))
        = lastVolumeTimestamp (updateThermometer currentTime (getRMSVolume (audioAnalyzer app)) app)
    \<and> currentState (stateManager (snd (handleVolumeUpdate currentTime trackTime app)))
        = determineState (stateManager app)
            (displayedVolume (snd (handleVolumeUpdate currentTime trackTime app)))
    \<and> volumeHistory (stateManager (snd (handleVolumeUpdate currentTime trackTime app)))
        = volumeHistory (stateManager app))
   \<and> (dampening (config sm) = 0 \<longrightarrow> fst (applyDampening v sm) = v)
   \<and> (dampening (config sm) \<noteq> 0 \<longrightarrow>
        fst (applyDampening v sm)
          = v * (1 - dampening (config sm) / 100)
            + sum_list (volumeHistory (snd (applyDampening v sm)))
                / real (length (volumeHistory (snd (applyDampening v sm))))
              * (dampening (config sm) / 100))
   \<and> (historyMaxLength sm = 5 \<and> length (volumeHistory sm) \<le> 5 \<longrightarrow>
        length (volumeHistory (snd (applyDampening v sm))) \<le> 5
        \<and> volumeHistory (snd (applyDampening v sm))
            = (if length (volumeHistory sm) = 5 then tl (volumeHistory sm) @ [v]
               else volumeHistory sm @ [v]))"
proof (intro conjI impI)
  assume p: "\<not> isPaused app"
  show "displayedVolume (snd (handleVolumeUpdate currentTime trackTime app))
        = displayedVolume (updateThermometer currentTime (getRMSVolume (audioAnalyzer app)) app)"
    using p by (rule handleVolumeUpdate_stabilizer)
  show "lastSignificantVolume (snd (handleVolumeUpdate currentTime trackTime app))
        = lastSignificantVolume (updateThermometer currentTime (getRMSVolume (audioAnalyzer app)) app)"
    using p by (rule handleVolumeUpdate_stabilizer)
  show "lastVolumeTimestamp (snd (handleVolumeUpdate currentTime trackTime app))
        = lastVolumeTimestamp (updateThermometer currentTime (getRMSVolume (audioAnalyzer app)) app)"
    using p by (rule handleVolumeUpdate_stabilizer)
  show "currentState (stateManager (snd (handleVolumeUpdate currentTime trackTime app)))
        = determineState (stateManager app)
            (displayedVolume (snd (handleVolumeUpdate currentTime trackTime app)))"
    using p by (simp add: handleVolumeUpdate_manager handleVolumeUpdate_stabilizer updateState_manager)
  show "volumeHistory (stateManager (snd (handleVolumeUpdate currentTime trackTime app)))
        = volumeHistory (stateManager app)"
    using p by (simp add: handleVolumeUpdate_manager updateState_manager)
next
  assume "dampening (config sm) = 0"
  then show "fst (applyDampening v sm) = v" by (simp add: applyDampening_value)
next
  assume "dampening (config sm) \<noteq> 0"
  then show "fst (applyDampening v sm)
          = v * (1 - dampening (config sm) / 100)
            + sum_list (volumeHistory (snd (applyDampening v sm)))
                / real (length (volumeHistory (snd (applyDampening v sm))))
              * (dampening (config sm) / 100)"
    using applyDampening_value [of v sm] by simp
next
  assume h: "historyMaxLength sm = 5 \<and> length (volumeHistory sm) \<le> 5"
  then show "length (volumeHistory (snd (applyDampening v sm))) \<le> 5"
    by (simp add: applyDampening_history)
  from h show "volumeHistory (snd (applyDampening v sm))
            = (if length (volumeHistory sm) = 5 then tl (volumeHistory sm) @ [v]
               else volumeHistory sm @ [v])"
    by (cases "volumeHistory sm") (auto simp add: applyDampening_history)
qed

lemma analyzing_start:
  "isAnalyzing (audioAnalyzer analyzingApp)" "\<not> isPaused analyzingApp"
  "dampening (config (stateManager analyzingApp)) = 20"
  by (simp_all add: analyzingApp_def newEcoLogroApp_def newStateManager_def)

theorem raw_sample_reaches_envelope_witness:
  "\<not> isPaused analyzingApp
   \<and> getRMSVolume (audioAnalyzer analyzingApp) = 0
   \<and> displayedVolume (snd (handleVolumeUpdate 1000000 1000000 analyzingApp)) = 0
   \<and> currentState (stateManager (snd (handleVolumeUpdate 1000000 1000000 analyzingApp))) = SILENT
   \<and> volumeHistory (stateManager (snd (handleVolumeUpdate 1000000 1000000 analyzingApp))) = []
   \<and> dampening (config (newStateManager\<lparr>volumeHistory := [1, 2, 3, 4, 5]\<rparr>)) \<noteq> 0
   \<and> fst (applyDampening 6 (newStateManager\<lparr>volumeHistory := [1, 2, 3, 4, 5]\<rparr>)) = 28 / 5
   \<and> volumeHistory (snd (applyDampening 6 (newStateManager\<lparr>volumeHistory := [1, 2, 3, 4, 5]\<rparr>)))
       = [2, 3, 4, 5, 6]"
proof -
  have a: "\<not> isPaused analyzingApp" "getRMSVolume (audioAnalyzer analyzingApp) = 0"
    by (simp_all add: analyzingApp_def newEcoLogroApp_def frame_volumes)
  have t: "displayedVolume (updateThermometer 1000000 0 analyzingApp) = 0"
    by (simp add: updateThermometer_def analyzingApp_def newEcoLogroApp_def Let_def)
  have c: "determineState (stateManager analyzingApp) 0 = SILENT"
    "volumeHistory (stateManager analyzingApp) = []"
    by (simp_all add: determineState_def analyzingApp_def newEcoLogroApp_def newStateManager_def)
  have m: "dampening (config (newStateManager\<lparr>volumeHistory := [1, 2, 3, 4, 5]\<rparr>)) = 20"
    "historyMaxLength (newStateManager\<lparr>volumeHistory := [1, 2, 3, 4, 5]\<rparr>) = 5"
    "volumeHistory (newStateManager\<lparr>volumeHistory := [1, 2, 3, 4, 5]\<rparr>) = [1, 2, 3, 4, 5]"
    by (simp_all add: newStateManager_def)
  show ?thesis
    using raw_sample_reaches_envelope
      [of analyzingApp 1000000 1000000 "newStateManager\<lparr>volumeHistory := [1, 2, 3, 4, 5]\<rparr>" 6]
      a t c m
    by simp
qed

lemma first_tick:
  "snd (analyze silentFrame 1000000 1000000 analyzingApp)
     = analyzingApp\<lparr>lastVolumeTimestamp := 1000000\<rparr>"
  by (simp add: analyze_def handleVolumeUpdate_def frame_volumes updateThermometer_def
        updateState_def determineState_def trackState_def analyzingApp_def newEcoLogroApp_def
        newStateManager_def newSessionTracker_def Let_def)

lemma second_tick:
  "displayedVolume (snd (analyze loudFrame 1000016 1000016
                      (analyzingApp\<lparr>lastVolumeTimestamp := 1000000\<rparr>))) = 100"
  "volumeHistory (stateManager (snd (analyze loudFrame 1000016 1000016
                      (analyzingApp\<lparr>lastVolumeTimestamp := 1000000\<rparr>)))) = []"
  by (simp_all add: analyze_def handleVolumeUpdate_def frame_volumes updateThermometer_def
        updateState_def determineState_def trackState_def analyzingApp_def newEcoLogroApp_def
        newStateManager_def newSessionTracker_def Let_def)

lemma first_dampened_tick:
  "snd (dampenedAnalyze silentFrame 1000000 1000000 analyzingApp)
     = analyzingApp\<lparr>lastVolumeTimestamp := 1000000,
                      stateManager := (stateManager analyzingApp)\<lparr>volumeHistory := [0]\<rparr>\<rparr>"
  by (simp add: dampenedAnalyze_def dampenedVolumeUpdate_def applyDampening_def frame_volumes
        updateThermometer_def
        updateState_def determineState_def trackState_def analyzingApp_def newEcoLogroApp_def
        newStateManager_def newSessionTracker_def Let_def)

lemma second_dampened_tick:
  "displayedVolume (snd (dampenedAnalyze loudFrame 1000016 1000016
      (analyzingApp\<lparr>lastVolumeTimestamp := 1000000,
                      stateManager := (stateManager analyzingApp)\<lparr>volumeHistory := [0]\<rparr>\<rparr>))) = 90"
  "volumeHistory (stateManager (snd (dampenedAnalyze loudFrame 1000016 1000016
      (analyzingApp\<lparr>lastVolumeTimestamp := 1000000,
                      stateManager := (stateManager analyzingApp)\<lparr>volumeHistory := [0]\<rparr>\<rparr>)))) = [0, 100]"
  by (simp_all add: dampenedAnalyze_def dampenedVolumeUpdate_def applyDampening_def frame_volumes
        updateThermometer_def
        updateState_def determineState_def trackState_def analyzingApp_def newEcoLogroApp_def
        newStateManager_def newSessionTracker_def Let_def)

text \<open>
  Default configuration (dampening 20), a silent frame and then a loud one, 16 ms apart.
  The source displays 100 and keeps no history; with the dampening stage of the
  specification in place the envelope would receive \<open>100 * 0.8 + 50 * 0.2 = 90\<close>.
\<close>

theorem dampening_bypassed_counterexample:
  "0 < dampening (config (stateManager analyzingApp))
   \<and> displayedVolume (snd (analyze loudFrame 1000016 1000016
         (snd (analyze silentFrame 1000000 1000000 analyzingApp)))) = 100
   \<and> volumeHistory (stateManager (snd (analyze loudFrame 1000016 1000016
         (snd (analyze silentFrame 1000000 1000000 analyzingApp))))) = []
   \<and> displayedVolume (snd (dampenedAnalyze loudFrame 1000016 1000016
         (snd (dampenedAnalyze silentFrame 1000000 1000000 analyzingApp)))) = 90
   \<and> volumeHistory (stateManager (snd (dampenedAnalyze loudFrame 1000016 1000016
         (snd (dampenedAnalyze silentFrame 1000000 1000000 analyzingApp))))) = [0, 100]"
  unfolding first_tick first_dampened_tick
  using second_tick second_dampened_tick analyzing_start(3) by simp

section \<open>Session boundaries\<close>

lemma endSession_idle:
  "\<not> isTracking tr \<or> currentSession tr = None \<Longrightarrow> endSession now tr ls = (None, tr, ls)"
  by (auto simp add: endSession_def split: option.splits)

lemma endSession_active:
  assumes "isTracking tr" "currentSession tr = Some s"
  shows "endSession now tr ls =
           (Some (s\<lparr>totalDuration := (now - startTime s) div 1000,
                     consistencyScore :=
                       (if greenZoneTime s = 0 then 0 else max 0 (100 - min (dropCount s * 5) 80))\<rparr>),
            tr\<lparr>isTracking := False,
                timerInterval := (if timerInterval tr = Some 0 then Some 0 else None),
                currentSession :=
                  Some (s\<lparr>totalDuration := (now - startTime s) div 1000,
                           consistencyScore :=
                             (if greenZoneTime s = 0 then 0
                              else max 0 (100 - min (dropCount s * 5) 80))\<rparr>)\<rparr>,
            saveSessionToHistory
              (s\<lparr>totalDuration := (now - startTime s) div 1000,
                  consistencyScore :=
                    (if greenZoneTime s = 0 then 0 else max 0 (100 - min (dropCount s * 5) 80))\<rparr>)
              ls)"
  using assms by (simp add: endSession_def calculateConsistency_def Let_def)

lemma startSession_active:
  assumes "isTracking tr" "currentSession tr = Some s"
  shows "snd (startSession endNow idNow random startNow timer tr ls)
           = snd (snd (endSession endNow tr ls))"
    and "currentSession (fst (startSession endNow idNow random startNow timer tr ls))
           = Some (freshSession idNow random startNow)"
    and "isTracking (fst (startSession endNow idNow random startNow timer tr ls))"
    and "timerInterval (fst (startSession endNow idNow random startNow timer tr ls)) = Some timer"
  using assms by (simp_all add: startSession_def Let_def split: prod.splits)

lemma saveSessionToHistory_cases:
  "\<not> setItemThrows ls \<Longrightarrow>
     sessionsItem (saveSessionToHistory s ls) = Some (take 50 (s # getSessionHistory ls))"
  "setItemThrows ls \<Longrightarrow> saveSessionToHistory s ls = ls"
  by (simp_all add: saveSessionToHistory_def Let_def)

lemma floor_seconds: "1000 * ((x::int) div 1000) \<le> x"
  by simp

text \<open>
  C9, as amended.  When a session is active, \<open>startSession\<close> first ends it: the summary
  that \<open>endSession\<close> returns has its duration and consistency score computed and is
  handed to \<open>saveSessionToHistory\<close>, which puts it at the head of the stored history
  (capped at 50) if the storage accepts the write and leaves the storage as it is
  otherwise; then the new session becomes the current one, starting no earlier than
  the old one ended when the clock does not run backwards.  When no session is active,
  \<open>endSession\<close> returns \<open>None\<close> and changes neither the tracker nor the storage.
\<close>

theorem session_boundaries:
  "(isTracking tr \<and> currentSession tr = Some s \<longrightarrow>
      (\<exists>summary.
          fst (endSession endNow tr ls) = Some summary
        \<and> totalDuration summary = (endNow - startTime s) div 1000
        \<and> consistencyScore summary = calculateConsistency (tr\<lparr>currentSession := Some summary\<rparr>)
        \<and> snd (startSession endNow idNow random startNow timer tr ls)
             = saveSessionToHistory summary ls
        \<and> (\<not> setItemThrows ls \<longrightarrow>
              sessionsItem (snd (startSession endNow idNow random startNow timer tr ls))
                = Some (take 50 (summary # getSessionHistory ls)))
        \<and> (setItemThrows ls \<longrightarrow> snd (startSession endNow idNow random startNow timer tr ls) = ls)
        \<and> currentSession (fst (startSession endNow idNow random startNow timer tr ls))
             = Some (freshSession idNow random startNow)
        \<and> isTracking (fst (startSession endNow idNow random startNow timer tr ls))
        \<and> (endNow \<le> startNow \<longrightarrow>
              startTime summary + 1000 * totalDuration summary
                \<le> startTime (freshSession idNow random startNow))))
   \<and> (\<not> isTracking tr \<or> currentSession tr = None \<longrightarrow> endSession now tr ls = (None, tr, ls))"
proof (intro conjI impI)
  assume a: "isTracking tr \<and> currentSession tr = Some s"
  let ?summary = "s\<lparr>totalDuration := (endNow - startTime s) div 1000,
                     consistencyScore :=
                       (if greenZoneTime s = 0 then 0 else max 0 (100 - min (dropCount s * 5) 80))\<rparr>"
  from a have e: "fst (endSession endNow tr ls) = Some ?summary"
    and l: "snd (snd (endSession endNow tr ls)) = saveSessionToHistory ?summary ls"
    by (simp_all add: endSession_active)
  from a have st: "snd (startSession endNow idNow random startNow timer tr ls)
                     = saveSessionToHistory ?summary ls"
    by (simp add: startSession_active l)
  have d: "totalDuration ?summary = (endNow - startTime s) div 1000" by simp
  have c: "consistencyScore ?summary = calculateConsistency (tr\<lparr>currentSession := Some ?summary\<rparr>)"
    by (simp add: calculateConsistency_def Let_def)
  have over: "endNow \<le> startNow \<longrightarrow>
              startTime ?summary + 1000 * totalDuration ?summary
                \<le> startTime (freshSession idNow random startNow)"
    using floor_seconds [of "endNow - startTime s"] by (simp add: freshSession_def)
  have "fst (endSession endNow tr ls) = Some ?summary
        \<and> totalDuration ?summary = (endNow - startTime s) div 1000
        \<and> consistencyScore ?summary = calculateConsistency (tr\<lparr>currentSession := Some ?summary\<rparr>)
        \<and> snd (startSession endNow idNow random startNow timer tr ls)
             = saveSessionToHistory ?summary ls
        \<and> (\<not> setItemThrows ls \<longrightarrow>
              sessionsItem (snd (startSession endNow idNow random startNow timer tr ls))
                = Some (take 50 (?summary # getSessionHistory ls)))
        \<and> (setItemThrows ls \<longrightarrow> snd (startSession endNow idNow random startNow timer tr ls) = ls)
        \<and> currentSession (fst (startSession endNow idNow random startNow timer tr ls))
             = Some (freshSession idNow random startNow)
        \<and> isTracking (fst (startSession endNow idNow random startNow timer tr ls))
        \<and> (endNow \<le> startNow \<longrightarrow>
              startTime ?summary + 1000 * totalDuration ?summary
                \<le> startTime (freshSession idNow random startNow))"
    using e d c st over a
    by (simp only: saveSessionToHistory_cases startSession_active simp_thms if_True if_False)
       (simp add: saveSessionToHistory_cases)
  then show "\<exists>summary.
          fst (endSession endNow tr ls) = Some summary
        \<and> totalDuration summary = (endNow - startTime s) div 1000
        \<and> consistencyScore summary = calculateConsistency (tr\<lparr>currentSession := Some summary\<rparr>)
        \<and> snd (startSession endNow idNow random startNow timer tr ls)
             = saveSessionToHistory summary ls
        \<and> (\<not> setItemThrows ls \<longrightarrow>
              sessionsItem (snd (startSession endNow idNow random startNow timer tr ls))
                = Some (take 50 (summary # getSessionHistory ls)))
        \<and> (setItemThrows ls \<longrightarrow> snd (startSession endNow idNow random startNow timer tr ls) = ls)
        \<and> currentSession (fst (startSession endNow idNow random startNow timer tr ls))
             = Some (freshSession idNow random startNow)
        \<and> isTracking (fst (startSession endNow idNow random startNow timer tr ls))
        \<and> (endNow \<le> startNow \<longrightarrow>
              startTime summary + 1000 * totalDuration summary
                \<le> startTime (freshSession idNow random startNow))"
    by (rule exI)
next
  assume "\<not> isTracking tr \<or> currentSession tr = None"
  then show "endSession now tr ls = (None, tr, ls)" by (rule endSession_idle)
qed

lemma activeTracker_session:
  "isTracking activeTracker"
  "currentSession activeTracker = Some (freshSession 1000000 ''k3x9q'' 1000000)"
  by (simp_all add: activeTracker_def startSession_def newSessionTracker_def Let_def)

theorem session_boundaries_witness:
  "isTracking activeTracker
   \<and> currentSession activeTracker = Some (freshSession 1000000 ''k3x9q'' 1000000)
   \<and> getSessionHistory (snd (startSession 1060000 1060001 ''p7m2c'' 1060002 2 activeTracker emptyStorage))
       = [(freshSession 1000000 ''k3x9q'' 1000000)\<lparr>totalDuration := 60, consistencyScore := 0\<rparr>]
   \<and> currentSession (fst (startSession 1060000 1060001 ''p7m2c'' 1060002 2 activeTracker emptyStorage))
       = Some (freshSession 1060001 ''p7m2c'' 1060002)
   \<and> \<not> isTracking newSessionTracker
   \<and> endSession 1060000 newSessionTracker emptyStorage = (None, newSessionTracker, emptyStorage)"
proof -
  have e: "fst (endSession 1060000 activeTracker emptyStorage)
             = Some ((freshSession 1000000 ''k3x9q'' 1000000)\<lparr>totalDuration := 60, consistencyScore := 0\<rparr>)"
    by (simp add: endSession_active [OF activeTracker_session] freshSession_def)
  have w: "\<not> setItemThrows emptyStorage" "getSessionHistory emptyStorage = []"
    by (simp_all add: emptyStorage_def getSessionHistory_def)
  have n: "\<not> isTracking newSessionTracker" by (simp add: newSessionTracker_def)
  from session_boundaries
         [where tr = activeTracker and s = "freshSession 1000000 ''k3x9q'' 1000000"
            and endNow = 1060000 and ls = emptyStorage and idNow = 1060001 and random = "''p7m2c''"
            and startNow = 1060002 and timer = 2]
       activeTracker_session e w
  have "sessionsItem (snd (startSession 1060000 1060001 ''p7m2c'' 1060002 2 activeTracker emptyStorage))
          = Some [(freshSession 1000000 ''k3x9q'' 1000000)\<lparr>totalDuration := 60, consistencyScore := 0\<rparr>]"
    and "currentSession (fst (startSession 1060000 1060001 ''p7m2c'' 1060002 2 activeTracker emptyStorage))
       = Some (freshSession 1060001 ''p7m2c'' 1060002)"
    and "getItemThrows (snd (startSession 1060000 1060001 ''p7m2c'' 1060002 2 activeTracker emptyStorage))
          = getItemThrows emptyStorage"
    by (auto simp add: saveSessionToHistory_def Let_def)
  moreover from session_boundaries [where tr = newSessionTracker and now = 1060000 and ls = emptyStorage] n
  have "endSession 1060000 newSessionTracker emptyStorage = (None, newSessionTracker, emptyStorage)"
    by simp
  ultimately show ?thesis
    using activeTracker_session n by (simp add: getSessionHistory_def emptyStorage_def)
qed

text \<open>
  With a storage that rejects writes, restarting while a session is active ends that
  session without saving it: the history read back afterwards is empty.
\<close>

theorem unsaved_session_counterexample:
  "isTracking activeTracker
   \<and> currentSession activeTracker = Some (freshSession 1000000 ''k3x9q'' 1000000)
   \<and> snd (startSession 1060000 1060001 ''p7m2c'' 1060002 2 activeTracker fullStorage) = fullStorage
   \<and> getSessionHistory (snd (startSession 1060000 1060001 ''p7m2c'' 1060002 2 activeTracker fullStorage))
       = []"
proof -
  have "snd (startSession 1060000 1060001 ''p7m2c'' 1060002 2 activeTracker fullStorage) = fullStorage"
    using activeTracker_session
    by (simp add: startSession_active endSession_active saveSessionToHistory_cases fullStorage_def)
  then show ?thesis
    using activeTracker_session by (simp add: getSessionHistory_def fullStorage_def)
qed

end
